theory Spec2Isabelle
  imports Main
begin

section \<open>The conversion script \<^verbatim>\<open>scripts/convert_to_onnx.py\<close>\<close>

text \<open>
  The script is sequential glue around three external libraries (the model hub loader, the
  graph exporter, the optional inference engine) and the file system. The embedding threads
  an explicit \<open>world\<close> through every function: the file system, the lines printed so far and
  the calls made into the external libraries so far. What the libraries answer is a
  parameter, the record \<open>env\<close>. A Python exception is a value of type \<open>exn\<close>; a
  function that may raise returns \<open>(exn + 'a) \<times> world\<close>, the world being the one at
  the moment of the raise, since effects done before a raise stay done.
\<close>

subsection \<open>Exceptions\<close>

text \<open>
  The two handlers of the script select by class: \<^verbatim>\<open>except ImportError\<close> and
  \<^verbatim>\<open>except Exception\<close>. The classes kept apart are those the handlers and the standard
  library calls of the script tell apart; \<open>OtherError\<close> is any other subclass of
  \<^verbatim>\<open>Exception\<close>, \<open>KeyboardInterrupt\<close> stands for the classes below
  \<^verbatim>\<open>BaseException\<close> that are not below \<^verbatim>\<open>Exception\<close>.
\<close>

datatype exn_class =
    ImportError | FileNotFoundError | FileExistsError | KeyError | IndexError
  | OtherError | KeyboardInterrupt

datatype exn = Exn exn_class string

fun isinstance_ImportError :: "exn \<Rightarrow> bool" where
  "isinstance_ImportError (Exn c msg) = (c = ImportError)"

fun isinstance_Exception :: "exn \<Rightarrow> bool" where
  "isinstance_Exception (Exn c msg) = (c \<noteq> KeyboardInterrupt)"

text \<open>\<^verbatim>\<open>str(e)\<close>, as the f-string of the batch driver formats the exception.\<close>

fun str_exn :: "exn \<Rightarrow> string" where
  "str_exn (Exn c msg) = msg"

subsection \<open>Data\<close>

type_synonym path = string

type_synonym tensor = "int list list"

type_synonym tokenizer = string

record hf_model =
  name_or_path :: string
  num_labels :: nat

text \<open>The arguments of the one call \<^verbatim>\<open>onnx_export(model, (..), output_path, ...)\<close>.\<close>

record onnx_export_call =
  exp_model :: hf_model
  exp_args :: "tensor list"
  exp_f :: path
  exp_export_params :: bool
  exp_opset_version :: int
  exp_input_names :: "string list"
  exp_output_names :: "string list"
  exp_dynamic_axes :: "(string \<times> (nat \<times> string) list) list"

text \<open>
  The exported graph artifact, as far as the script determines it: the interface it
  declares and what it was traced from.
\<close>

record onnx_graph =
  graph_model :: hf_model
  graph_example :: "tensor list"
  graph_opset :: int
  graph_inputs :: "string list"
  graph_outputs :: "string list"
  graph_dynamic_axes :: "(string \<times> (nat \<times> string) list) list"

text \<open>
  The exporter is external. Its documented contract, which is all the model takes from
  it: when the call returns, the file at \<open>f\<close> holds a graph whose inputs and outputs are
  named by \<open>input_names\<close> and \<open>output_names\<close>, in order, and whose dynamic axes are those
  of \<open>dynamic_axes\<close>.
\<close>

definition exported_graph :: "onnx_export_call \<Rightarrow> onnx_graph" where
  "exported_graph c =
     \<lparr> graph_model = exp_model c,
       graph_example = exp_args c,
       graph_opset = exp_opset_version c,
       graph_inputs = exp_input_names c,
       graph_outputs = exp_output_names c,
       graph_dynamic_axes = exp_dynamic_axes c \<rparr>"

datatype node = Directory | OnnxFile onnx_graph | OtherFile string

text \<open>The lines the script prints, one constructor for each \<^verbatim>\<open>print\<close> of the source.\<close>

datatype line =
    LoadingModel string
  | ConvertingToOnnx
  | ModelSavedTo path
  | ModelDimensions int
  | OutputShapeLabels nat
  | VerifyingOnnxModel
  | VerificationSuccessful
  | VerifiedOutputShape "nat list"
  | OnnxruntimeNotInstalled
  | InstallOnnxruntimeHint
  | AlreadyExistsSkipping string
  | FailedToConvert string string
  | MissingDependencies
  | InstallDependenciesHint

text \<open>The calls into the external libraries, in the order they are made.\<close>

datatype call =
    TokenizerFromPretrained string
  | ModelFromPretrained string
  | TokenizerCall tokenizer string string int
  | OnnxExport onnx_export_call
  | InferenceSession path
  | SessionRun path "(string \<times> tensor) list"

record world =
  fs :: "path \<Rightarrow> node option"
  stdout :: "line list"
  calls :: "call list"

text \<open>
  What the environment answers. An import either succeeds or raises
  \<^verbatim>\<open>ImportError\<close>; a library routine returns or raises any exception. The session
  routines see the content of the file they are given.
\<close>

record env =
  torch_importable :: bool
  transformers_importable :: bool
  onnxruntime_importable :: bool
  tokenizer_from_pretrained :: "string \<Rightarrow> exn + tokenizer"
  model_from_pretrained :: "string \<Rightarrow> exn + hf_model"
  tokenizer_call :: "tokenizer \<Rightarrow> string \<Rightarrow> string \<Rightarrow> int \<Rightarrow> exn + (string \<times> tensor) list"
  onnx_export :: "onnx_export_call \<Rightarrow> exn option"
  inference_session :: "path \<Rightarrow> node option \<Rightarrow> exn option"
  session_run :: "path \<Rightarrow> node option \<Rightarrow> (string \<times> tensor) list \<Rightarrow> exn + nat list list"

definition print_line :: "line \<Rightarrow> world \<Rightarrow> world" where
  "print_line l w = w\<lparr>stdout := stdout w @ [l]\<rparr>"

definition record_call :: "call \<Rightarrow> world \<Rightarrow> world" where
  "record_call c w = w\<lparr>calls := calls w @ [c]\<rparr>"

subsection \<open>Paths and the file system (\<^verbatim>\<open>posixpath\<close>, \<^verbatim>\<open>os\<close>)\<close>

definition sep :: char where
  "sep = CHR ''/''"

text \<open>
  \<^verbatim>\<open>posixpath.dirname\<close>: \<^verbatim>\<open>i = p.rfind(sep) + 1; head = p[:i];
  if head and head != sep*len(head): head = head.rstrip(sep); return head\<close>.
\<close>

definition rfind_sep_plus1 :: "path \<Rightarrow> nat" where
  "rfind_sep_plus1 p = length p - length (takeWhile (\<lambda>c. c \<noteq> sep) (rev p))"

definition rstrip_sep :: "path \<Rightarrow> path" where
  "rstrip_sep s = rev (dropWhile (\<lambda>c. c = sep) (rev s))"

definition os_path_dirname :: "path \<Rightarrow> path" where
  "os_path_dirname p =
     (let head = take (rfind_sep_plus1 p) p
      in if head \<noteq> [] \<and> head \<noteq> replicate (length head) sep then rstrip_sep head else head)"

text \<open>
  \<^verbatim>\<open>posixpath.join(a, b)\<close>: \<^verbatim>\<open>if b.startswith(sep): path = b;
  elif not path or path.endswith(sep): path += b; else: path += sep + b\<close>.
\<close>

definition os_path_join :: "path \<Rightarrow> path \<Rightarrow> path" where
  "os_path_join a b =
     (if (case b of [] \<Rightarrow> False | c # cs \<Rightarrow> c = sep) then b
      else if a = [] \<or> last a = sep then a @ b
      else a @ [sep] @ b)"

text \<open>
  Paths are the keys of the file system as they are written; \<^verbatim>\<open>os.path.exists\<close> is
  true of a file and of a directory.
\<close>

definition os_path_exists :: "world \<Rightarrow> path \<Rightarrow> bool" where
  "os_path_exists w p = (fs w p \<noteq> None)"

text \<open>
  \<^verbatim>\<open>os.makedirs(name, exist_ok=True)\<close>. With the empty name the library reaches
  \<^verbatim>\<open>mkdir('')\<close>, which raises \<^verbatim>\<open>FileNotFoundError\<close>, and re-raises it since
  \<^verbatim>\<open>path.isdir('')\<close> is false. A name that is a directory already is accepted
  (\<^verbatim>\<open>exist_ok\<close>); a name that is a file raises \<^verbatim>\<open>FileExistsError\<close>, since
  \<^verbatim>\<open>path.isdir(name)\<close> is false; otherwise the directory is created. Ancestors and
  permissions are not tracked.
\<close>

definition os_makedirs :: "path \<Rightarrow> world \<Rightarrow> (exn + unit) \<times> world" where
  "os_makedirs name w =
     (if name = [] then (Inl (Exn FileNotFoundError ''[Errno 2] No such file or directory''), w)
      else case fs w name of
             None \<Rightarrow> (Inr (), w\<lparr>fs := (fs w)(name \<mapsto> Directory)\<rparr>)
           | Some Directory \<Rightarrow> (Inr (), w)
           | Some (OnnxFile g) \<Rightarrow> (Inl (Exn FileExistsError ''[Errno 17] File exists''), w)
           | Some (OtherFile s) \<Rightarrow> (Inl (Exn FileExistsError ''[Errno 17] File exists''), w))"

subsection \<open>\<^verbatim>\<open>convert_cross_encoder_to_onnx\<close>\<close>

definition dummy_query :: string where
  "dummy_query = ''What is machine learning?''"

definition dummy_doc :: string where
  "dummy_doc = ''Machine learning is a subset of artificial intelligence.''"

text \<open>\<^verbatim>\<open>inputs[key]\<close> on the dictionary the tokenizer returned.\<close>

definition getitem :: "(string \<times> tensor) list \<Rightarrow> string \<Rightarrow> exn + tensor" where
  "getitem d k = (case map_of d k of None \<Rightarrow> Inl (Exn KeyError k) | Some v \<Rightarrow> Inr v)"

text \<open>
  The body of the \<^verbatim>\<open>try\<close> of lines 74 to 91: the import, the session, one inference
  pass, and the report of \<^verbatim>\<open>outputs[0].shape\<close>.
\<close>

definition verification_try_body ::
  "env \<Rightarrow> path \<Rightarrow> (string \<times> tensor) list \<Rightarrow> world \<Rightarrow> (exn + unit) \<times> world" where
  "verification_try_body env output_path feeds w =
     (if \<not> onnxruntime_importable env
      then (Inl (Exn ImportError ''No module named onnxruntime''), w)
      else
        (let w1 = print_line VerifyingOnnxModel w;
             w2 = record_call (InferenceSession output_path) w1
         in (case inference_session env output_path (fs w2 output_path) of
               Some e \<Rightarrow> (Inl e, w2)
             | None \<Rightarrow>
                 (let w3 = record_call (SessionRun output_path feeds) w2
                  in (case session_run env output_path (fs w3 output_path) feeds of
                        Inl e \<Rightarrow> (Inl e, w3)
                      | Inr outputs \<Rightarrow>
                          (let w4 = print_line VerificationSuccessful w3
                           in (case outputs of
                                 [] \<Rightarrow> (Inl (Exn IndexError ''list index out of range''), w4)
                               | shape0 # rest \<Rightarrow>
                                   (Inr (), print_line (VerifiedOutputShape shape0) w4))))))))"

text \<open>The \<^verbatim>\<open>try\<close> with its one handler, \<^verbatim>\<open>except ImportError\<close> (lines 74 to 95).\<close>

definition verification ::
  "env \<Rightarrow> path \<Rightarrow> (string \<times> tensor) list \<Rightarrow> world \<Rightarrow> (exn + unit) \<times> world" where
  "verification env output_path feeds w =
     (case verification_try_body env output_path feeds w of
        (Inr u, w') \<Rightarrow> (Inr u, w')
      | (Inl e, w') \<Rightarrow>
          if isinstance_ImportError e
          then (Inr (), print_line InstallOnnxruntimeHint (print_line OnnxruntimeNotInstalled w'))
          else (Inl e, w'))"

definition the_export_call ::
  "hf_model \<Rightarrow> tensor \<Rightarrow> tensor \<Rightarrow> tensor \<Rightarrow> path \<Rightarrow> int \<Rightarrow> onnx_export_call" where
  "the_export_call mdl ids attention types output_path opset_version =
     \<lparr> exp_model = mdl,
       exp_args = [ids, attention, types],
       exp_f = output_path,
       exp_export_params = True,
       exp_opset_version = opset_version,
       exp_input_names = [''input_ids'', ''attention_mask'', ''token_type_ids''],
       exp_output_names = [''logits''],
       exp_dynamic_axes =
         [(''input_ids'', [(0, ''batch_size''), (1, ''sequence'')]),
          (''attention_mask'', [(0, ''batch_size''), (1, ''sequence'')]),
          (''token_type_ids'', [(0, ''batch_size''), (1, ''sequence'')]),
          (''logits'', [(0, ''batch_size'')])] \<rparr>"

text \<open>
  Lines 49 to 95: the three subscripts of \<open>inputs\<close>, the export, the three reports, the
  verification. The feeds of the inference pass subscript \<open>inputs\<close> with the same three
  keys again, which cannot fail where the first subscripts did not.
\<close>

definition export_and_verify ::
  "env \<Rightarrow> hf_model \<Rightarrow> (string \<times> tensor) list \<Rightarrow> path \<Rightarrow> int \<Rightarrow> int \<Rightarrow> world
     \<Rightarrow> (exn + unit) \<times> world" where
  "export_and_verify env mdl inputs output_path max_length opset_version w =
     (let w1 = print_line ConvertingToOnnx w
      in case getitem inputs ''input_ids'' of
           Inl e \<Rightarrow> (Inl e, w1)
         | Inr ids \<Rightarrow>
      (case getitem inputs ''attention_mask'' of
           Inl e \<Rightarrow> (Inl e, w1)
         | Inr attention \<Rightarrow>
      (case getitem inputs ''token_type_ids'' of
           Inl e \<Rightarrow> (Inl e, w1)
         | Inr types \<Rightarrow>
      (let c = the_export_call mdl ids attention types output_path opset_version;
           w2 = record_call (OnnxExport c) w1
       in case onnx_export env c of
            Some e \<Rightarrow> (Inl e, w2)
          | None \<Rightarrow>
              let w3 = w2\<lparr>fs := (fs w2)(output_path \<mapsto> OnnxFile (exported_graph c))\<rparr>;
                  w4 = print_line (ModelSavedTo output_path) w3;
                  w5 = print_line (ModelDimensions max_length) w4;
                  w6 = print_line (OutputShapeLabels (num_labels mdl)) w5
              in verification env output_path
                   [(''input_ids'', ids), (''attention_mask'', attention), (''token_type_ids'', types)]
                   w6))))"

definition convert_cross_encoder_to_onnx ::
  "env \<Rightarrow> string \<Rightarrow> path \<Rightarrow> int \<Rightarrow> int \<Rightarrow> world \<Rightarrow> (exn + unit) \<times> world" where
  "convert_cross_encoder_to_onnx env model_name output_path max_length opset_version w =
     (let w1 = print_line (LoadingModel model_name) w;
          w2 = record_call (TokenizerFromPretrained model_name) w1
      in (case tokenizer_from_pretrained env model_name of
            Inl e \<Rightarrow> (Inl e, w2)
          | Inr tok \<Rightarrow>
              (let w3 = record_call (ModelFromPretrained model_name) w2
               in (case model_from_pretrained env model_name of
                     Inl e \<Rightarrow> (Inl e, w3)
                   | Inr mdl \<Rightarrow>
                       (let w4 = record_call
                                   (TokenizerCall tok dummy_query dummy_doc max_length) w3
                        in (case tokenizer_call env tok dummy_query dummy_doc max_length of
                              Inl e \<Rightarrow> (Inl e, w4)
                            | Inr inputs \<Rightarrow>
                                export_and_verify env mdl inputs output_path max_length
                                  opset_version w4))))))"

text \<open>The defaults of the two optional parameters of the procedure.\<close>

definition default_max_length :: int where
  "default_max_length = 512"

definition default_opset_version :: int where
  "default_opset_version = 14"

subsection \<open>\<^verbatim>\<open>download_and_convert_popular_models\<close>\<close>

definition models :: "(string \<times> string) list" where
  "models =
     [(''cross-encoder/ms-marco-MiniLM-L6-v2'', ''ms-marco-MiniLM-L6-v2.onnx''),
      (''cross-encoder/ms-marco-MiniLM-L12-v2'', ''ms-marco-MiniLM-L12-v2.onnx''),
      (''cross-encoder/ms-marco-TinyBERT-L-2-v2'', ''ms-marco-TinyBERT-L2-v2.onnx'')]"

text \<open>
  The \<^verbatim>\<open>for\<close> loop of lines 109 to 119 over the rest of the list. The handler
  \<^verbatim>\<open>except Exception\<close> lets an exception that is no \<^verbatim>\<open>Exception\<close> through.
\<close>

fun batch_loop :: "env \<Rightarrow> path \<Rightarrow> (string \<times> string) list \<Rightarrow> world \<Rightarrow> (exn + unit) \<times> world" where
  "batch_loop env output_dir [] w = (Inr (), w)"
| "batch_loop env output_dir ((model_name, output_name) # rest) w =
     (let output_path = os_path_join output_dir output_name
      in if os_path_exists w output_path
         then batch_loop env output_dir rest (print_line (AlreadyExistsSkipping output_name) w)
         else
           case convert_cross_encoder_to_onnx env model_name output_path
                  default_max_length default_opset_version w of
             (Inr u, w') \<Rightarrow> batch_loop env output_dir rest w'
           | (Inl e, w') \<Rightarrow>
               if isinstance_Exception e
               then batch_loop env output_dir rest
                      (print_line (FailedToConvert model_name (str_exn e)) w')
               else (Inl e, w'))"

definition download_and_convert_popular_models ::
  "env \<Rightarrow> path \<Rightarrow> world \<Rightarrow> (exn + unit) \<times> world" where
  "download_and_convert_popular_models env output_dir w =
     (case os_makedirs output_dir w of
        (Inl e, w') \<Rightarrow> (Inl e, w')
      | (Inr u, w') \<Rightarrow> batch_loop env output_dir models w')"

subsection \<open>\<^verbatim>\<open>main\<close> and the script\<close>

text \<open>The namespace \<^verbatim>\<open>parser.parse_args()\<close> returns.\<close>

record args =
  args_model :: string
  args_output :: string
  args_max_length :: int
  args_download_popular :: bool
  args_output_dir :: string

definition default_args :: args where
  "default_args =
     \<lparr> args_model = ''cross-encoder/ms-marco-MiniLM-L6-v2'',
       args_output = ''models/cross-encoder.onnx'',
       args_max_length = 512,
       args_download_popular = False,
       args_output_dir = ''models'' \<rparr>"

definition main :: "env \<Rightarrow> args \<Rightarrow> world \<Rightarrow> (exn + unit) \<times> world" where
  "main env a w =
     (if args_download_popular a
      then download_and_convert_popular_models env (args_output_dir a) w
      else
        case os_makedirs (os_path_dirname (args_output a)) w of
          (Inl e, w') \<Rightarrow> (Inl e, w')
        | (Inr u, w') \<Rightarrow>
            convert_cross_encoder_to_onnx env (args_model a) (args_output a)
              (args_max_length a) default_opset_version w')"

text \<open>
  How the process ends: it runs to the end of the file, it calls
  \<^verbatim>\<open>sys.exit(n)\<close>, or an exception reaches the top and the interpreter prints the
  traceback.
\<close>

datatype outcome = Completed | SysExit nat | Traceback exn

fun exit_status :: "outcome \<Rightarrow> nat" where
  "exit_status Completed = 0"
| "exit_status (SysExit n) = n"
| "exit_status (Traceback (Exn c msg)) = (if c = KeyboardInterrupt then 130 else 1)"

text \<open>
  The module from its first line, run as a script. Lines 10 to 12 import
  \<^verbatim>\<open>torch\<close> and \<^verbatim>\<open>transformers\<close> at module level, outside any \<^verbatim>\<open>try\<close>; the
  dependency check of lines 174 to 181 comes after them, and \<^verbatim>\<open>main()\<close> last.
\<close>

definition script :: "env \<Rightarrow> args \<Rightarrow> world \<Rightarrow> outcome \<times> world" where
  "script env a w =
     (if \<not> torch_importable env
      then (Traceback (Exn ImportError ''No module named torch''), w)
      else if \<not> transformers_importable env
      then (Traceback (Exn ImportError ''No module named transformers''), w)
      else if \<not> transformers_importable env \<or> \<not> torch_importable env
      then (SysExit 1,
            print_line InstallDependenciesHint (print_line MissingDependencies w))
      else
        case main env a w of
          (Inl e, w') \<Rightarrow> (Traceback e, w')
        | (Inr u, w') \<Rightarrow> (Completed, w'))"

subsection \<open>Sample environments and worlds\<close>

definition sample_inputs :: "(string \<times> tensor) list" where
  "sample_inputs =
     [(''input_ids'', [[101, 2054, 102]]),
      (''token_type_ids'', [[0, 0, 1]]),
      (''attention_mask'', [[1, 1, 1]])]"

text \<open>Every library is present and every call succeeds.\<close>

definition env_ok :: env where
  "env_ok =
     \<lparr> torch_importable = True,
       transformers_importable = True,
       onnxruntime_importable = True,
       tokenizer_from_pretrained = (\<lambda>n. Inr n),
       model_from_pretrained = (\<lambda>n. Inr \<lparr>name_or_path = n, num_labels = 1\<rparr>),
       tokenizer_call = (\<lambda>tok q d n. Inr sample_inputs),
       onnx_export = (\<lambda>c. None),
       inference_session = (\<lambda>p f. None),
       session_run = (\<lambda>p f feeds. Inr [[1, 1]]) \<rparr>"

definition world0 :: world where
  "world0 = \<lparr> fs = Map.empty, stdout = [], calls = [] \<rparr>"

text \<open>The inference engine is not installed.\<close>

definition env_no_onnxruntime :: env where
  "env_no_onnxruntime = env_ok\<lparr>onnxruntime_importable := False\<rparr>"



text \<open>The hub knows no tokenizer, no model, or the exporter rejects the graph.\<close>

definition env_tokenizer_missing :: env where
  "env_tokenizer_missing =
     env_ok\<lparr>tokenizer_from_pretrained := (\<lambda>n. Inl (Exn OtherError ''is not a valid model identifier''))\<rparr>"

definition env_model_missing :: env where
  "env_model_missing =
     env_ok\<lparr>model_from_pretrained := (\<lambda>n. Inl (Exn OtherError ''is not a valid model identifier''))\<rparr>"

definition env_export_fails :: env where
  "env_export_fails =
     env_ok\<lparr>onnx_export := (\<lambda>c. Some (Exn OtherError ''Unsupported ONNX opset version''))\<rparr>"

text \<open>The namespace of \<^verbatim>\<open>--download-popular\<close>.\<close>

definition batch_args :: args where
  "batch_args = default_args\<lparr>args_download_popular := True\<rparr>"

text \<open>The hub does not know the second model of the batch list.\<close>

definition env_second_model_fails :: env where
  "env_second_model_fails =
     env_ok\<lparr>model_from_pretrained :=
       (\<lambda>n. if n = ''cross-encoder/ms-marco-MiniLM-L12-v2''
            then Inl (Exn OtherError ''is not a valid model identifier'')
            else Inr \<lparr>name_or_path = n, num_labels = 1\<rparr>)\<rparr>"


text \<open>The tensor library is not installed.\<close>

definition env_no_torch :: env where
  "env_no_torch = env_ok\<lparr>torch_importable := False\<rparr>"

section \<open>Properties\<close>


subsection \<open>The verification step leaves the file system alone\<close>

lemma verification_try_body_fs:
  "fs (snd (verification_try_body env p feeds w)) = fs w"
  by (simp add: verification_try_body_def print_line_def record_call_def Let_def
      split: option.splits sum.splits list.splits)

lemma verification_fs: "fs (snd (verification env p feeds w)) = fs w"
proof -
  obtain r w' where b: "verification_try_body env p feeds w = (r, w')"
    by (cases "verification_try_body env p feeds w")
  then have "fs w' = fs w"
    using verification_try_body_fs [of env p feeds w] by simp
  then show ?thesis
    by (simp add: verification_def b print_line_def split: sum.splits)
qed

lemma export_and_verify_written:
  assumes "fst (export_and_verify env mdl inputs p ml ov w) = Inr u"
  shows "\<exists>ids attention types.
           fs (snd (export_and_verify env mdl inputs p ml ov w)) p
             = Some (OnnxFile (exported_graph (the_export_call mdl ids attention types p ov)))"
  using assms
  by (auto simp: export_and_verify_def Let_def verification_fs print_line_def record_call_def
      split: sum.splits option.splits)

lemmas run_defs =
  convert_cross_encoder_to_onnx_def export_and_verify_def verification_def
  verification_try_body_def print_line_def record_call_def getitem_def Let_def

subsection \<open>Auxiliary facts\<close>

text \<open>When loading, tokenizing and exporting succeed, the procedure has written the file and printed its reports by the time it enters the verification step.\<close>

lemma convert_reaches_verification:
  assumes "tokenizer_from_pretrained env model_name = Inr tok"
    and "model_from_pretrained env model_name = Inr mdl"
    and "tokenizer_call env tok dummy_query dummy_doc max_length = Inr inputs"
    and "getitem inputs ''input_ids'' = Inr ids"
    and "getitem inputs ''attention_mask'' = Inr attention"
    and "getitem inputs ''token_type_ids'' = Inr types"
    and "onnx_export env (the_export_call mdl ids attention types output_path opset_version) = None"
  shows "convert_cross_encoder_to_onnx env model_name output_path max_length opset_version w =
         verification env output_path
           [(''input_ids'', ids), (''attention_mask'', attention), (''token_type_ids'', types)]
           (\<lparr>fs = (fs w)(output_path \<mapsto> OnnxFile (exported_graph
                   (the_export_call mdl ids attention types output_path opset_version))),
              stdout = stdout w @ [LoadingModel model_name, ConvertingToOnnx,
                   ModelSavedTo output_path, ModelDimensions max_length,
                   OutputShapeLabels (num_labels mdl)],
              calls = calls w @ [TokenizerFromPretrained model_name,
                   ModelFromPretrained model_name,
                   TokenizerCall tok dummy_query dummy_doc max_length,
                   OnnxExport (the_export_call mdl ids attention types output_path
                     opset_version)]\<rparr>)"
  using assms
  by (cases w)
     (simp add: convert_cross_encoder_to_onnx_def export_and_verify_def print_line_def
      record_call_def Let_def)

lemma verification_library_absent:
  assumes "\<not> onnxruntime_importable env"
  shows "verification env p feeds w =
         (Inr (), w\<lparr>stdout := stdout w @ [OnnxruntimeNotInstalled, InstallOnnxruntimeHint]\<rparr>)"
  using assms
  by (simp add: verification_def verification_try_body_def print_line_def)

lemma verification_session_raises:
  assumes "onnxruntime_importable env"
    and "inference_session env p (fs w p) = Some e"
  shows "verification env p feeds w =
         (if isinstance_ImportError e
          then (Inr (), w\<lparr>stdout := stdout w @ [VerifyingOnnxModel, OnnxruntimeNotInstalled,
                                InstallOnnxruntimeHint],
                           calls := calls w @ [InferenceSession p]\<rparr>)
          else (Inl e, w\<lparr>stdout := stdout w @ [VerifyingOnnxModel],
                         calls := calls w @ [InferenceSession p]\<rparr>))"
  using assms
  by (simp add: verification_def verification_try_body_def print_line_def record_call_def Let_def)

lemma verification_run_raises:
  assumes "onnxruntime_importable env"
    and "inference_session env p (fs w p) = None"
    and "session_run env p (fs w p) feeds = Inl e"
  shows "verification env p feeds w =
         (if isinstance_ImportError e
          then (Inr (), w\<lparr>stdout := stdout w @ [VerifyingOnnxModel, OnnxruntimeNotInstalled,
                                InstallOnnxruntimeHint],
                           calls := calls w @ [InferenceSession p, SessionRun p feeds]\<rparr>)
          else (Inl e, w\<lparr>stdout := stdout w @ [VerifyingOnnxModel],
                         calls := calls w @ [InferenceSession p, SessionRun p feeds]\<rparr>))"
  using assms
  by (simp add: verification_def verification_try_body_def print_line_def record_call_def Let_def)

text \<open>Two worlds are equal when their three components are.\<close>

lemma world_eq_iff:
  "(w1 :: world) = w2 \<longleftrightarrow> fs w1 = fs w2 \<and> stdout w1 = stdout w2 \<and> calls w1 = calls w2"
  by (cases w1, cases w2) auto

text \<open>One conversion either fails before the file is written, the file system untouched, or writes the file and goes on to the verification; the shape of the result does not depend on the world it starts from.\<close>

lemma export_and_verify_cases:
  "(\<exists>e cs. (\<forall>c\<in>set cs. \<exists>x. c = OnnxExport x \<and> exp_opset_version x = ov)
      \<and> (\<forall>w. export_and_verify env mdl inputs p ml ov w =
        (Inl e, \<lparr>fs = fs w, stdout = stdout w @ [ConvertingToOnnx], calls = calls w @ cs\<rparr>)))
   \<or> (\<exists>g feeds x. exp_opset_version x = ov
      \<and> (\<forall>w. export_and_verify env mdl inputs p ml ov w =
        verification env p feeds
          \<lparr>fs = (fs w)(p \<mapsto> OnnxFile g),
           stdout = stdout w @ [ConvertingToOnnx, ModelSavedTo p, ModelDimensions ml,
                                OutputShapeLabels (num_labels mdl)],
           calls = calls w @ [OnnxExport x]\<rparr>))"
proof (cases "getitem inputs ''input_ids''")
  case (Inl e)
  then have "\<forall>w. export_and_verify env mdl inputs p ml ov w =
        (Inl e, \<lparr>fs = fs w, stdout = stdout w @ [ConvertingToOnnx], calls = calls w @ []\<rparr>)"
    by (simp add: export_and_verify_def print_line_def world_eq_iff)
  then show ?thesis by (intro disjI1 exI [of _ e] exI [of _ "[]"]) simp
next
  case i: (Inr ids)
  show ?thesis
  proof (cases "getitem inputs ''attention_mask''")
    case (Inl e)
    then have "\<forall>w. export_and_verify env mdl inputs p ml ov w =
        (Inl e, \<lparr>fs = fs w, stdout = stdout w @ [ConvertingToOnnx], calls = calls w @ []\<rparr>)"
      by (simp add: export_and_verify_def i print_line_def world_eq_iff)
    then show ?thesis by (intro disjI1 exI [of _ e] exI [of _ "[]"]) simp
  next
    case a: (Inr attention)
    show ?thesis
    proof (cases "getitem inputs ''token_type_ids''")
      case (Inl e)
      then have "\<forall>w. export_and_verify env mdl inputs p ml ov w =
        (Inl e, \<lparr>fs = fs w, stdout = stdout w @ [ConvertingToOnnx], calls = calls w @ []\<rparr>)"
        by (simp add: export_and_verify_def i a print_line_def world_eq_iff)
      then show ?thesis by (intro disjI1 exI [of _ e] exI [of _ "[]"]) simp
    next
      case t: (Inr types)
      have o: "exp_opset_version (the_export_call mdl ids attention types p ov) = ov"
        by (simp add: the_export_call_def)
      show ?thesis
      proof (cases "onnx_export env (the_export_call mdl ids attention types p ov)")
        case (Some e)
        then have "\<forall>w. export_and_verify env mdl inputs p ml ov w =
          (Inl e, \<lparr>fs = fs w, stdout = stdout w @ [ConvertingToOnnx],
                   calls = calls w @ [OnnxExport (the_export_call mdl ids attention types p ov)]\<rparr>)"
          by (simp add: export_and_verify_def i a t print_line_def record_call_def Let_def
              world_eq_iff)
        then show ?thesis
          using o
          by (intro disjI1 exI [of _ e]
              exI [of _ "[OnnxExport (the_export_call mdl ids attention types p ov)]"]) simp
      next
        case None
        have "export_and_verify env mdl inputs p ml ov w =
          verification env p
            [(''input_ids'', ids), (''attention_mask'', attention), (''token_type_ids'', types)]
            \<lparr>fs = (fs w)(p \<mapsto> OnnxFile (exported_graph
                     (the_export_call mdl ids attention types p ov))),
             stdout = stdout w @ [ConvertingToOnnx, ModelSavedTo p, ModelDimensions ml,
                                OutputShapeLabels (num_labels mdl)],
             calls = calls w @ [OnnxExport (the_export_call mdl ids attention types p ov)]\<rparr>"
          for w
          by (cases w)
             (simp add: export_and_verify_def i a t None print_line_def record_call_def Let_def)
        then show ?thesis
          using o by blast
      qed
    qed
  qed
qed

lemma convert_cases:
  "(\<exists>e ls cs.
      (\<forall>c\<in>set cs. (\<forall>tok q d k. c = TokenizerCall tok q d k \<longrightarrow> k = ml)
                   \<and> (\<forall>x. c = OnnxExport x \<longrightarrow> exp_opset_version x = ov))
      \<and> (\<forall>w. convert_cross_encoder_to_onnx env n p ml ov w =
        (Inl e, \<lparr>fs = fs w, stdout = stdout w @ ls, calls = calls w @ cs\<rparr>)))
   \<or> (\<exists>g feeds ls cs.
      (\<forall>c\<in>set cs. (\<forall>tok q d k. c = TokenizerCall tok q d k \<longrightarrow> k = ml)
                   \<and> (\<forall>x. c = OnnxExport x \<longrightarrow> exp_opset_version x = ov))
      \<and> (\<forall>w. convert_cross_encoder_to_onnx env n p ml ov w =
        verification env p feeds
          \<lparr>fs = (fs w)(p \<mapsto> OnnxFile g), stdout = stdout w @ ls, calls = calls w @ cs\<rparr>))"
proof (cases "tokenizer_from_pretrained env n")
  case (Inl e)
  then have "\<forall>w. convert_cross_encoder_to_onnx env n p ml ov w =
        (Inl e, \<lparr>fs = fs w, stdout = stdout w @ [LoadingModel n],
                 calls = calls w @ [TokenizerFromPretrained n]\<rparr>)"
    by (simp add: convert_cross_encoder_to_onnx_def print_line_def record_call_def world_eq_iff)
  then show ?thesis
    by (intro disjI1 exI [of _ e] exI [of _ "[LoadingModel n]"]
        exI [of _ "[TokenizerFromPretrained n]"]) simp
next
  case k: (Inr tok)
  show ?thesis
  proof (cases "model_from_pretrained env n")
    case (Inl e)
    then have "\<forall>w. convert_cross_encoder_to_onnx env n p ml ov w =
        (Inl e, \<lparr>fs = fs w, stdout = stdout w @ [LoadingModel n],
                 calls = calls w @ [TokenizerFromPretrained n, ModelFromPretrained n]\<rparr>)"
      by (simp add: convert_cross_encoder_to_onnx_def k print_line_def record_call_def
          world_eq_iff)
    then show ?thesis
      by (intro disjI1 exI [of _ e] exI [of _ "[LoadingModel n]"]
          exI [of _ "[TokenizerFromPretrained n, ModelFromPretrained n]"]) simp
  next
    case m: (Inr mdl)
    show ?thesis
    proof (cases "tokenizer_call env tok dummy_query dummy_doc ml")
      case (Inl e)
      then have "\<forall>w. convert_cross_encoder_to_onnx env n p ml ov w =
        (Inl e, \<lparr>fs = fs w, stdout = stdout w @ [LoadingModel n],
                 calls = calls w @ [TokenizerFromPretrained n, ModelFromPretrained n,
                                    TokenizerCall tok dummy_query dummy_doc ml]\<rparr>)"
        by (simp add: convert_cross_encoder_to_onnx_def k m print_line_def record_call_def
            world_eq_iff)
      then show ?thesis
        by (intro disjI1 exI [of _ e] exI [of _ "[LoadingModel n]"]
            exI [of _ "[TokenizerFromPretrained n, ModelFromPretrained n,
                        TokenizerCall tok dummy_query dummy_doc ml]"]) simp
    next
      case i: (Inr inputs)
      have c: "convert_cross_encoder_to_onnx env n p ml ov w =
          export_and_verify env mdl inputs p ml ov
            \<lparr>fs = fs w, stdout = stdout w @ [LoadingModel n],
             calls = calls w @ [TokenizerFromPretrained n, ModelFromPretrained n,
                                TokenizerCall tok dummy_query dummy_doc ml]\<rparr>" for w
        by (cases w)
           (simp add: convert_cross_encoder_to_onnx_def k m i print_line_def record_call_def)
      from export_and_verify_cases [of ov env mdl inputs p ml] show ?thesis
      proof (elim disjE exE conjE)
        fix e cs
        assume q: "\<forall>c\<in>set cs. \<exists>x. c = OnnxExport x \<and> exp_opset_version x = ov"
          and "\<forall>w. export_and_verify env mdl inputs p ml ov w =
          (Inl e, \<lparr>fs = fs w, stdout = stdout w @ [ConvertingToOnnx], calls = calls w @ cs\<rparr>)"
        then have "\<forall>w. convert_cross_encoder_to_onnx env n p ml ov w =
          (Inl e, \<lparr>fs = fs w, stdout = stdout w @ [LoadingModel n, ConvertingToOnnx],
                   calls = calls w @ ([TokenizerFromPretrained n, ModelFromPretrained n,
                                TokenizerCall tok dummy_query dummy_doc ml] @ cs)\<rparr>)"
          by (simp add: c)
        then show ?thesis
          using q
          by (intro disjI1 exI [of _ e] exI [of _ "[LoadingModel n, ConvertingToOnnx]"]
              exI [of _ "[TokenizerFromPretrained n, ModelFromPretrained n,
                          TokenizerCall tok dummy_query dummy_doc ml] @ cs"]) auto
      next
        fix g feeds x
        assume q: "exp_opset_version x = ov"
          and "\<forall>w. export_and_verify env mdl inputs p ml ov w =
          verification env p feeds
            \<lparr>fs = (fs w)(p \<mapsto> OnnxFile g),
             stdout = stdout w @ [ConvertingToOnnx, ModelSavedTo p, ModelDimensions ml,
                                  OutputShapeLabels (num_labels mdl)],
             calls = calls w @ [OnnxExport x]\<rparr>"
        then have "\<forall>w. convert_cross_encoder_to_onnx env n p ml ov w =
          verification env p feeds
            \<lparr>fs = (fs w)(p \<mapsto> OnnxFile g),
             stdout = stdout w @ [LoadingModel n, ConvertingToOnnx, ModelSavedTo p,
                                  ModelDimensions ml, OutputShapeLabels (num_labels mdl)],
             calls = calls w @ [TokenizerFromPretrained n, ModelFromPretrained n,
                                TokenizerCall tok dummy_query dummy_doc ml, OnnxExport x]\<rparr>"
          by (simp add: c)
        then show ?thesis
          using q
          by (intro disjI2 exI [of _ g] exI [of _ feeds]
              exI [of _ "[LoadingModel n, ConvertingToOnnx, ModelSavedTo p,
                          ModelDimensions ml, OutputShapeLabels (num_labels mdl)]"]
              exI [of _ "[TokenizerFromPretrained n, ModelFromPretrained n,
                          TokenizerCall tok dummy_query dummy_doc ml, OnnxExport x]"]) simp
      qed
    qed
  qed
qed

text \<open>The verification reads the file system at the output path only.\<close>

lemma verification_try_body_frame:
  assumes "fs w1 p = fs w2 p" and "stdout w1 = stdout w2" and "calls w1 = calls w2"
  shows "fst (verification_try_body env p feeds w1) = fst (verification_try_body env p feeds w2)
       \<and> stdout (snd (verification_try_body env p feeds w1))
           = stdout (snd (verification_try_body env p feeds w2))
       \<and> calls (snd (verification_try_body env p feeds w1))
           = calls (snd (verification_try_body env p feeds w2))"
  using assms
  by (simp add: verification_try_body_def print_line_def record_call_def Let_def
      split: option.splits sum.splits list.splits)

lemma verification_frame:
  assumes "fs w1 p = fs w2 p" and "stdout w1 = stdout w2" and "calls w1 = calls w2"
  shows "fst (verification env p feeds w1) = fst (verification env p feeds w2)
       \<and> stdout (snd (verification env p feeds w1)) = stdout (snd (verification env p feeds w2))
       \<and> calls (snd (verification env p feeds w1)) = calls (snd (verification env p feeds w2))"
proof -
  obtain r1 v1 where b1: "verification_try_body env p feeds w1 = (r1, v1)"
    by (cases "verification_try_body env p feeds w1")
  obtain r2 v2 where b2: "verification_try_body env p feeds w2 = (r2, v2)"
    by (cases "verification_try_body env p feeds w2")
  have "r1 = r2 \<and> stdout v1 = stdout v2 \<and> calls v1 = calls v2"
    using verification_try_body_frame [OF assms, of env feeds] b1 b2 by simp
  then show ?thesis
    by (simp add: verification_def b1 b2 print_line_def split: sum.splits)
qed

lemma verification_calls:
  "\<exists>cs. calls (snd (verification env p feeds w)) = calls w @ cs
        \<and> set cs \<subseteq> {InferenceSession p, SessionRun p feeds}"
  by (auto simp: verification_def verification_try_body_def print_line_def record_call_def Let_def
      split: option.splits sum.splits list.splits)

lemma convert_calls:
  "\<exists>cs. calls (snd (convert_cross_encoder_to_onnx env n p ml ov w)) = calls w @ cs
      \<and> (\<forall>c\<in>set cs. (\<forall>tok q d k. c = TokenizerCall tok q d k \<longrightarrow> k = ml)
                     \<and> (\<forall>x. c = OnnxExport x \<longrightarrow> exp_opset_version x = ov))"
  using convert_cases [of ml ov env n p]
proof (elim disjE exE conjE)
  fix e ls cs
  assume "\<forall>c\<in>set cs. (\<forall>tok q d k. c = TokenizerCall tok q d k \<longrightarrow> k = ml)
                     \<and> (\<forall>x. c = OnnxExport x \<longrightarrow> exp_opset_version x = ov)"
    and "\<forall>w. convert_cross_encoder_to_onnx env n p ml ov w =
        (Inl e, \<lparr>fs = fs w, stdout = stdout w @ ls, calls = calls w @ cs\<rparr>)"
  then show ?thesis by (intro exI [of _ cs]) simp
next
  fix g feeds ls cs
  assume q: "\<forall>c\<in>set cs. (\<forall>tok q d k. c = TokenizerCall tok q d k \<longrightarrow> k = ml)
                     \<and> (\<forall>x. c = OnnxExport x \<longrightarrow> exp_opset_version x = ov)"
    and c: "\<forall>w. convert_cross_encoder_to_onnx env n p ml ov w =
        verification env p feeds
          \<lparr>fs = (fs w)(p \<mapsto> OnnxFile g), stdout = stdout w @ ls, calls = calls w @ cs\<rparr>"
  obtain vs where v: "calls (snd (verification env p feeds
          \<lparr>fs = (fs w)(p \<mapsto> OnnxFile g), stdout = stdout w @ ls, calls = calls w @ cs\<rparr>))
        = (calls w @ cs) @ vs" "set vs \<subseteq> {InferenceSession p, SessionRun p feeds}"
    using verification_calls [of env p feeds
        "\<lparr>fs = (fs w)(p \<mapsto> OnnxFile g), stdout = stdout w @ ls, calls = calls w @ cs\<rparr>"]
    by auto
  show ?thesis
    using q v by (intro exI [of _ "cs @ vs"]) (auto simp: c)
qed

lemma os_path_exists_print_line [simp]:
  "os_path_exists (print_line l w) p = os_path_exists w p"
  by (simp add: os_path_exists_def print_line_def)

text \<open>The loop over a list whose outputs all exist prints one line for each and does nothing else.\<close>

lemma batch_loop_all_exist:
  assumes "\<forall>(model_name, output_name)\<in>set ms. os_path_exists w (os_path_join d output_name)"
  shows "batch_loop env d ms w
         = (Inr (), w\<lparr>stdout := stdout w @ map (\<lambda>(model_name, output_name).
                                  AlreadyExistsSkipping output_name) ms\<rparr>)"
  using assms
proof (induction ms arbitrary: w)
  case Nil
  then show ?case by simp
next
  case (Cons a ms)
  obtain m f where a: "a = (m, f)" by (cases a)
  have "batch_loop env d ms (print_line (AlreadyExistsSkipping f) w)
        = (Inr (), (print_line (AlreadyExistsSkipping f) w)
             \<lparr>stdout := stdout (print_line (AlreadyExistsSkipping f) w)
                 @ map (\<lambda>(model_name, output_name). AlreadyExistsSkipping output_name) ms\<rparr>)"
    using Cons.prems by (intro Cons.IH) auto
  then show ?case
    using Cons.prems by (simp add: a print_line_def)
qed

text \<open>The loop runs to its end when no conversion raises anything but an \<^verbatim>\<open>Exception\<close>.\<close>

lemma batch_loop_total:
  assumes "\<forall>m p v e v'. convert_cross_encoder_to_onnx env m p default_max_length
              default_opset_version v = (Inl e, v') \<longrightarrow> isinstance_Exception e"
  shows "fst (batch_loop env d ms w) = Inr ()"
proof (induction ms arbitrary: w)
  case Nil
  then show ?case by simp
next
  case (Cons a ms)
  obtain m f where a: "a = (m, f)" by (cases a)
  obtain r v where c: "convert_cross_encoder_to_onnx env m (os_path_join d f) default_max_length
              default_opset_version w = (r, v)"
    by (cases "convert_cross_encoder_to_onnx env m (os_path_join d f) default_max_length
              default_opset_version w")
  show ?case
  proof (cases r)
    case (Inl e)
    then have "isinstance_Exception e" using assms c by blast
    then show ?thesis by (simp add: a c Inl Cons.IH Let_def)
  next
    case (Inr u)
    then show ?thesis by (simp add: a c Cons.IH Let_def)
  qed
qed

text \<open>Every call of the loop into the tokenizer and the exporter carries the two defaults.\<close>

lemma batch_loop_calls:
  "\<exists>cs. calls (snd (batch_loop env d ms w)) = calls w @ cs
      \<and> (\<forall>c\<in>set cs. (\<forall>tok q t k. c = TokenizerCall tok q t k \<longrightarrow> k = default_max_length)
                     \<and> (\<forall>x. c = OnnxExport x \<longrightarrow> exp_opset_version x = default_opset_version))"
proof (induction ms arbitrary: w)
  case Nil
  then show ?case by simp
next
  case (Cons a ms)
  obtain m f where a: "a = (m, f)" by (cases a)
  show ?case
  proof (cases "os_path_exists w (os_path_join d f)")
    case True
    then show ?thesis
      using Cons.IH [of "print_line (AlreadyExistsSkipping f) w"]
      by (simp add: a print_line_def)
  next
    case False
    obtain r v where c: "convert_cross_encoder_to_onnx env m (os_path_join d f) default_max_length
              default_opset_version w = (r, v)"
      by (cases "convert_cross_encoder_to_onnx env m (os_path_join d f) default_max_length
              default_opset_version w")
    obtain cs where cs: "calls v = calls w @ cs"
      "\<forall>c\<in>set cs. (\<forall>tok q t k. c = TokenizerCall tok q t k \<longrightarrow> k = default_max_length)
                     \<and> (\<forall>x. c = OnnxExport x \<longrightarrow> exp_opset_version x = default_opset_version)"
      using convert_calls [of env m "os_path_join d f" default_max_length default_opset_version w] c
      by auto
    have step: "\<exists>v'. calls v' = calls v
        \<and> (batch_loop env d (a # ms) w = batch_loop env d ms v'
           \<or> snd (batch_loop env d (a # ms) w) = v')"
    proof (cases r)
      case (Inl e)
      show ?thesis
      proof (cases "isinstance_Exception e")
        case True
        then have "batch_loop env d (a # ms) w
            = batch_loop env d ms (print_line (FailedToConvert m (str_exn e)) v)"
          by (simp add: a c False Inl)
        then show ?thesis
          by (intro exI [of _ "print_line (FailedToConvert m (str_exn e)) v"])
             (simp add: print_line_def)
      next
        case False
        then have "snd (batch_loop env d (a # ms) w) = v"
          by (simp add: a c \<open>\<not> os_path_exists w (os_path_join d f)\<close> Inl)
        then show ?thesis by (intro exI [of _ v]) simp
      qed
    next
      case (Inr u)
      then have "batch_loop env d (a # ms) w = batch_loop env d ms v"
        by (simp add: a c False)
      then show ?thesis by (intro exI [of _ v]) simp
    qed
    then obtain v' where v': "calls v' = calls v"
      "batch_loop env d (a # ms) w = batch_loop env d ms v'
           \<or> snd (batch_loop env d (a # ms) w) = v'"
      by blast
    from v'(2) show ?thesis
    proof
      assume e: "batch_loop env d (a # ms) w = batch_loop env d ms v'"
      obtain ds where ds: "calls (snd (batch_loop env d ms v')) = calls v' @ ds"
        "\<forall>c\<in>set ds. (\<forall>tok q t k. c = TokenizerCall tok q t k \<longrightarrow> k = default_max_length)
                     \<and> (\<forall>x. c = OnnxExport x \<longrightarrow> exp_opset_version x = default_opset_version)"
        using Cons.IH [of v'] by blast
      show ?thesis
        using cs ds v'(1) by (intro exI [of _ "cs @ ds"]) (auto simp: e)
    next
      assume "snd (batch_loop env d (a # ms) w) = v'"
      then show ?thesis
        using cs v'(1) by (intro exI [of _ cs]) auto
    qed
  qed
qed

text \<open>The three outcomes of the directory creation.\<close>

lemma os_makedirs_cases:
  "(os_makedirs d w = (Inl (Exn FileNotFoundError ''[Errno 2] No such file or directory''), w)
      \<and> d = [])
   \<or> (os_makedirs d w = (Inl (Exn FileExistsError ''[Errno 17] File exists''), w)
      \<and> d \<noteq> [] \<and> (\<exists>x. fs w d = Some x \<and> x \<noteq> Directory))
   \<or> (os_makedirs d w = (Inr (), \<lparr>fs = (fs w)(d \<mapsto> Directory), stdout = stdout w,
                                  calls = calls w\<rparr>)
      \<and> d \<noteq> [] \<and> (\<forall>x. fs w d = Some x \<longrightarrow> x = Directory))"
  by (cases w) (auto simp: os_makedirs_def fun_upd_idem split: option.splits node.splits)

lemma download_all_exist:
  assumes "\<forall>(model_name, output_name)\<in>set models.
             os_path_exists w (os_path_join output_dir output_name)"
  shows "(\<exists>e. os_makedirs output_dir w = (Inl e, w)
              \<and> download_and_convert_popular_models env output_dir w = (Inl e, w))
       \<or> ((fs w output_dir = None \<or> fs w output_dir = Some Directory)
          \<and> download_and_convert_popular_models env output_dir w =
            (Inr (), \<lparr>fs = (fs w)(output_dir \<mapsto> Directory),
                      stdout = stdout w @ [AlreadyExistsSkipping ''ms-marco-MiniLM-L6-v2.onnx'',
                                           AlreadyExistsSkipping ''ms-marco-MiniLM-L12-v2.onnx'',
                                           AlreadyExistsSkipping ''ms-marco-TinyBERT-L2-v2.onnx''],
                      calls = calls w\<rparr>))"
  using os_makedirs_cases [of output_dir w]
proof (elim disjE conjE)
  assume m: "os_makedirs output_dir w =
      (Inr (), \<lparr>fs = (fs w)(output_dir \<mapsto> Directory), stdout = stdout w, calls = calls w\<rparr>)"
    and "\<forall>x. fs w output_dir = Some x \<longrightarrow> x = Directory"
  then have d: "fs w output_dir = None \<or> fs w output_dir = Some Directory"
    by (cases "fs w output_dir") auto
  let ?W = "\<lparr>fs = (fs w)(output_dir \<mapsto> Directory), stdout = stdout w, calls = calls w\<rparr>"
  have "\<forall>(model_name, output_name)\<in>set models.
      os_path_exists ?W (os_path_join output_dir output_name)"
    using assms by (auto simp: os_path_exists_def)
  from batch_loop_all_exist [OF this, of env]
  show ?thesis
    using d by (simp add: download_and_convert_popular_models_def m models_def)
qed (simp_all add: download_and_convert_popular_models_def)

lemma script_batch:
  assumes "torch_importable env" and "transformers_importable env" and "args_download_popular a"
  shows "script env a w =
         (case download_and_convert_popular_models env (args_output_dir a) w of
            (Inl e, w') \<Rightarrow> (Traceback e, w')
          | (Inr u, w') \<Rightarrow> (Completed, w'))"
  using assms by (simp add: script_def main_def)


lemmas eval_defs =
  run_defs script_def main_def download_and_convert_popular_models_def models_def
  os_makedirs_def os_path_join_def os_path_exists_def sep_def
  default_max_length_def default_opset_version_def
  env_ok_def world0_def sample_inputs_def default_args_def batch_args_def
  the_export_call_def exported_graph_def

subsection \<open>The interface of the exported graph\<close>

text \<open>
  C1. Whenever the conversion procedure returns normally, the file at the output path
  holds a graph that declares the inputs \<open>input_ids\<close>, \<open>attention_mask\<close>,
  \<open>token_type_ids\<close>, in this order and no other, the one output \<open>logits\<close>, the
  dynamic axes 0 (\<open>batch_size\<close>) and 1 (\<open>sequence\<close>) for each input and the dynamic
  axis 0 (\<open>batch_size\<close>) alone for \<open>logits\<close>.
\<close>

theorem converted_graph_interface:
  assumes "fst (convert_cross_encoder_to_onnx env model_name output_path max_length
                  opset_version w) = Inr u"
  shows "\<exists>g. fs (snd (convert_cross_encoder_to_onnx env model_name output_path max_length
                        opset_version w)) output_path = Some (OnnxFile g)
    \<and> graph_inputs g = [''input_ids'', ''attention_mask'', ''token_type_ids'']
    \<and> graph_outputs g = [''logits'']
    \<and> graph_dynamic_axes g =
         [(''input_ids'', [(0, ''batch_size''), (1, ''sequence'')]),
          (''attention_mask'', [(0, ''batch_size''), (1, ''sequence'')]),
          (''token_type_ids'', [(0, ''batch_size''), (1, ''sequence'')]),
          (''logits'', [(0, ''batch_size'')])]"
proof -
  obtain mdl inputs w4 where
    e: "convert_cross_encoder_to_onnx env model_name output_path max_length opset_version w
        = export_and_verify env mdl inputs output_path max_length opset_version w4"
    using assms
    by (auto simp: convert_cross_encoder_to_onnx_def Let_def split: sum.splits)
  from assms obtain ids attention types where
    "fs (snd (export_and_verify env mdl inputs output_path max_length opset_version w4))
        output_path
       = Some (OnnxFile (exported_graph
                (the_export_call mdl ids attention types output_path opset_version)))"
    using export_and_verify_written [of env mdl inputs output_path max_length opset_version w4 u] e
    by auto
  then show ?thesis
    by (simp add: e exported_graph_def the_export_call_def)
qed

theorem converted_graph_interface_witness:
  "fst (convert_cross_encoder_to_onnx env_ok ''cross-encoder/ms-marco-MiniLM-L6-v2''
          ''models/cross-encoder.onnx'' 512 14 world0) = Inr ()
   \<and> (\<exists>g. fs (snd (convert_cross_encoder_to_onnx env_ok ''cross-encoder/ms-marco-MiniLM-L6-v2''
                      ''models/cross-encoder.onnx'' 512 14 world0))
             ''models/cross-encoder.onnx'' = Some (OnnxFile g)
      \<and> graph_inputs g = [''input_ids'', ''attention_mask'', ''token_type_ids'']
      \<and> graph_outputs g = [''logits'']
      \<and> graph_dynamic_axes g =
           [(''input_ids'', [(0, ''batch_size''), (1, ''sequence'')]),
            (''attention_mask'', [(0, ''batch_size''), (1, ''sequence'')]),
            (''token_type_ids'', [(0, ''batch_size''), (1, ''sequence'')]),
            (''logits'', [(0, ''batch_size'')])])"
proof -
  have h: "fst (convert_cross_encoder_to_onnx env_ok ''cross-encoder/ms-marco-MiniLM-L6-v2''
                  ''models/cross-encoder.onnx'' 512 14 world0) = Inr ()"
    by (simp add: run_defs env_ok_def world0_def sample_inputs_def)
  show ?thesis
    using h converted_graph_interface [OF h] by simp
qed

subsection \<open>Failure isolation in the batch driver\<close>

text \<open>
  C2. In batch mode a failure of one conversion, that is an exception of class
  \<^verbatim>\<open>Exception\<close> (what \<^verbatim>\<open>except Exception\<close> selects), is caught by the
  driver, which prints one line with the model name and the message of the exception and
  goes on with the rest of the list. Where conversions raise nothing but such failures the
  loop always runs to its end, over any list, and the process, once the libraries are
  imported and the output directory is made, completes with exit status 0 whatever
  conversions failed.
\<close>

theorem batch_failure_isolation:
  "(\<not> os_path_exists w (os_path_join output_dir output_name)
      \<and> convert_cross_encoder_to_onnx env model_name (os_path_join output_dir output_name)
          default_max_length default_opset_version w = (Inl e, w')
      \<and> isinstance_Exception e \<longrightarrow>
      batch_loop env output_dir ((model_name, output_name) # rest) w
        = batch_loop env output_dir rest (print_line (FailedToConvert model_name (str_exn e)) w'))
   \<and> ((\<forall>m p v x v'. convert_cross_encoder_to_onnx env m p default_max_length
            default_opset_version v = (Inl x, v') \<longrightarrow> isinstance_Exception x) \<longrightarrow>
        fst (batch_loop env output_dir ms w) = Inr ()
        \<and> (torch_importable env \<and> transformers_importable env \<and> args_download_popular a
             \<and> fst (os_makedirs (args_output_dir a) w) = Inr () \<longrightarrow>
            fst (script env a w) = Completed \<and> exit_status (fst (script env a w)) = 0))"
proof (intro conjI impI)
  assume "\<not> os_path_exists w (os_path_join output_dir output_name)
      \<and> convert_cross_encoder_to_onnx env model_name (os_path_join output_dir output_name)
          default_max_length default_opset_version w = (Inl e, w')
      \<and> isinstance_Exception e"
  then show "batch_loop env output_dir ((model_name, output_name) # rest) w
        = batch_loop env output_dir rest (print_line (FailedToConvert model_name (str_exn e)) w')"
    by simp
next
  assume "\<forall>m p v x v'. convert_cross_encoder_to_onnx env m p default_max_length
            default_opset_version v = (Inl x, v') \<longrightarrow> isinstance_Exception x"
  then show "fst (batch_loop env output_dir ms w) = Inr ()"
    by (rule batch_loop_total)
next
  assume h: "\<forall>m p v x v'. convert_cross_encoder_to_onnx env m p default_max_length
            default_opset_version v = (Inl x, v') \<longrightarrow> isinstance_Exception x"
    and i: "torch_importable env \<and> transformers_importable env \<and> args_download_popular a
             \<and> fst (os_makedirs (args_output_dir a) w) = Inr ()"
  obtain v where m: "os_makedirs (args_output_dir a) w = (Inr (), v)"
    using i by (cases "os_makedirs (args_output_dir a) w") auto
  obtain v' where b: "batch_loop env (args_output_dir a) models v = (Inr (), v')"
    using batch_loop_total [OF h, of "args_output_dir a" models v]
    by (cases "batch_loop env (args_output_dir a) models v") auto
  have "script env a w = (Completed, v')"
    using i by (simp add: script_batch download_and_convert_popular_models_def m b)
  then show "fst (script env a w) = Completed" by simp
  then show "exit_status (fst (script env a w)) = 0" by simp
qed

theorem batch_failure_isolation_witness:
  "\<not> os_path_exists world0 (os_path_join ''models'' ''ms-marco-MiniLM-L12-v2.onnx'')
   \<and> convert_cross_encoder_to_onnx env_second_model_fails ''cross-encoder/ms-marco-MiniLM-L12-v2''
        (os_path_join ''models'' ''ms-marco-MiniLM-L12-v2.onnx'')
        default_max_length default_opset_version world0
      = (Inl (Exn OtherError ''is not a valid model identifier''),
         \<lparr>fs = Map.empty,
          stdout = [LoadingModel ''cross-encoder/ms-marco-MiniLM-L12-v2''],
          calls = [TokenizerFromPretrained ''cross-encoder/ms-marco-MiniLM-L12-v2'',
                   ModelFromPretrained ''cross-encoder/ms-marco-MiniLM-L12-v2'']\<rparr>)
   \<and> isinstance_Exception (Exn OtherError ''is not a valid model identifier'')
   \<and> batch_loop env_second_model_fails ''models''
        [(''cross-encoder/ms-marco-MiniLM-L12-v2'', ''ms-marco-MiniLM-L12-v2.onnx''),
         (''cross-encoder/ms-marco-TinyBERT-L-2-v2'', ''ms-marco-TinyBERT-L2-v2.onnx'')] world0
      = batch_loop env_second_model_fails ''models''
          [(''cross-encoder/ms-marco-TinyBERT-L-2-v2'', ''ms-marco-TinyBERT-L2-v2.onnx'')]
          \<lparr>fs = Map.empty,
           stdout = [LoadingModel ''cross-encoder/ms-marco-MiniLM-L12-v2'',
                     FailedToConvert ''cross-encoder/ms-marco-MiniLM-L12-v2''
                       ''is not a valid model identifier''],
           calls = [TokenizerFromPretrained ''cross-encoder/ms-marco-MiniLM-L12-v2'',
                    ModelFromPretrained ''cross-encoder/ms-marco-MiniLM-L12-v2'']\<rparr>
   \<and> torch_importable env_second_model_fails
   \<and> transformers_importable env_second_model_fails
   \<and> args_download_popular batch_args
   \<and> fst (os_makedirs (args_output_dir batch_args) world0) = Inr ()
   \<and> fst (script env_second_model_fails batch_args world0) = Completed
   \<and> exit_status (fst (script env_second_model_fails batch_args world0)) = 0
   \<and> FailedToConvert ''cross-encoder/ms-marco-MiniLM-L12-v2'' ''is not a valid model identifier''
        \<in> set (stdout (snd (script env_second_model_fails batch_args world0)))
   \<and> fs (snd (script env_second_model_fails batch_args world0))
        ''models/ms-marco-MiniLM-L6-v2.onnx'' \<noteq> None
   \<and> fs (snd (script env_second_model_fails batch_args world0))
        ''models/ms-marco-MiniLM-L12-v2.onnx'' = None
   \<and> fs (snd (script env_second_model_fails batch_args world0))
        ''models/ms-marco-TinyBERT-L2-v2.onnx'' \<noteq> None"
proof -
  let ?e = "Exn OtherError ''is not a valid model identifier''"
  let ?w' = "\<lparr>fs = Map.empty,
          stdout = [LoadingModel ''cross-encoder/ms-marco-MiniLM-L12-v2''],
          calls = [TokenizerFromPretrained ''cross-encoder/ms-marco-MiniLM-L12-v2'',
                   ModelFromPretrained ''cross-encoder/ms-marco-MiniLM-L12-v2'']\<rparr>"
  have a: "\<not> os_path_exists world0 (os_path_join ''models'' ''ms-marco-MiniLM-L12-v2.onnx'')
      \<and> convert_cross_encoder_to_onnx env_second_model_fails ''cross-encoder/ms-marco-MiniLM-L12-v2''
        (os_path_join ''models'' ''ms-marco-MiniLM-L12-v2.onnx'')
        default_max_length default_opset_version world0 = (Inl ?e, ?w')
      \<and> isinstance_Exception ?e"
    by (simp add: eval_defs env_second_model_fails_def)
  have h: "\<forall>m p v x v'. convert_cross_encoder_to_onnx env_second_model_fails m p
            default_max_length default_opset_version v = (Inl x, v') \<longrightarrow> isinstance_Exception x"
    by (auto simp: run_defs env_second_model_fails_def env_ok_def sample_inputs_def
        split: if_splits)
  have i: "torch_importable env_second_model_fails \<and> transformers_importable env_second_model_fails
      \<and> args_download_popular batch_args
      \<and> fst (os_makedirs (args_output_dir batch_args) world0) = Inr ()"
    by (simp add: eval_defs env_second_model_fails_def)
  note t1 = batch_failure_isolation [where env = env_second_model_fails and w = world0 and output_dir = "''models''"
      and output_name = "''ms-marco-MiniLM-L12-v2.onnx''"
      and model_name = "''cross-encoder/ms-marco-MiniLM-L12-v2''" and e = ?e and w' = ?w'
      and rest = "[(''cross-encoder/ms-marco-TinyBERT-L-2-v2'', ''ms-marco-TinyBERT-L2-v2.onnx'')]",
      THEN conjunct1, THEN mp, OF a]
  note t2 = batch_failure_isolation [where env = env_second_model_fails and w = world0 and a = batch_args,
      THEN conjunct2, THEN mp, OF h, THEN conjunct2, THEN mp, OF i]
  have o: "FailedToConvert ''cross-encoder/ms-marco-MiniLM-L12-v2'' ''is not a valid model identifier''
        \<in> set (stdout (snd (script env_second_model_fails batch_args world0)))
   \<and> fs (snd (script env_second_model_fails batch_args world0))
        ''models/ms-marco-MiniLM-L6-v2.onnx'' \<noteq> None
   \<and> fs (snd (script env_second_model_fails batch_args world0))
        ''models/ms-marco-MiniLM-L12-v2.onnx'' = None
   \<and> fs (snd (script env_second_model_fails batch_args world0))
        ''models/ms-marco-TinyBERT-L2-v2.onnx'' \<noteq> None"
    by (simp add: eval_defs env_second_model_fails_def)
  show ?thesis
    using a i t1 t2 o by (simp add: print_line_def)
qed

subsection \<open>Missing mandatory libraries\<close>

text \<open>
  C3. When \<^verbatim>\<open>torch\<close> or \<^verbatim>\<open>transformers\<close> cannot be imported, the script
  does not reach its dependency check: the module-level import of lines 10 and 11 raises
  first. The process ends in the traceback of an \<^verbatim>\<open>ImportError\<close>, with exit
  status 1 and the world as it was, and the guidance line of the check is not printed.
\<close>

theorem missing_dependency_ends_in_traceback:
  assumes "\<not> (torch_importable env \<and> transformers_importable env)"
  shows "(\<exists>msg. script env a w = (Traceback (Exn ImportError msg), w))
       \<and> exit_status (fst (script env a w)) = 1
       \<and> MissingDependencies \<notin> set (stdout (snd (script env a w))) - set (stdout w)"
  using assms by (auto simp: script_def)

theorem missing_dependency_ends_in_traceback_witness:
  "\<not> (torch_importable env_no_torch \<and> transformers_importable env_no_torch)
   \<and> script env_no_torch default_args world0
       = (Traceback (Exn ImportError ''No module named torch''), world0)
   \<and> stdout (snd (script env_no_torch default_args world0)) = []"
proof -
  have h: "\<not> (torch_importable env_no_torch \<and> transformers_importable env_no_torch)"
    by (simp add: env_no_torch_def env_ok_def)
  show ?thesis
    using h missing_dependency_ends_in_traceback [OF h, of default_args world0]
    by (simp add: script_def env_no_torch_def env_ok_def world0_def)
qed

subsection \<open>Existing outputs are skipped\<close>

text \<open>
  C4. A pair of the list whose destination path exists is skipped: the driver prints one
  line and goes on with the rest, the conversion procedure not invoked. When the three
  listed outputs all exist, the driver either stops in the directory creation, the world
  untouched, or returns normally having printed the three lines, made no call into any
  library, and changed nothing in the file system beyond noting the output directory.
\<close>

theorem existing_outputs_are_skipped:
  "(os_path_exists w (os_path_join output_dir output_name) \<longrightarrow>
      batch_loop env output_dir ((model_name, output_name) # rest) w
        = batch_loop env output_dir rest (print_line (AlreadyExistsSkipping output_name) w))
   \<and> ((\<forall>(m, f)\<in>set models. os_path_exists w (os_path_join output_dir f)) \<longrightarrow>
        ((\<exists>e. os_makedirs output_dir w = (Inl e, w)
              \<and> download_and_convert_popular_models env output_dir w = (Inl e, w))
         \<or> ((fs w output_dir = None \<or> fs w output_dir = Some Directory)
            \<and> download_and_convert_popular_models env output_dir w =
              (Inr (), \<lparr>fs = (fs w)(output_dir \<mapsto> Directory),
                        stdout = stdout w @ [AlreadyExistsSkipping ''ms-marco-MiniLM-L6-v2.onnx'',
                                             AlreadyExistsSkipping ''ms-marco-MiniLM-L12-v2.onnx'',
                                             AlreadyExistsSkipping ''ms-marco-TinyBERT-L2-v2.onnx''],
                        calls = calls w\<rparr>))))"
proof (intro conjI impI)
  assume "os_path_exists w (os_path_join output_dir output_name)"
  then show "batch_loop env output_dir ((model_name, output_name) # rest) w
        = batch_loop env output_dir rest (print_line (AlreadyExistsSkipping output_name) w)"
    by simp
next
  assume "\<forall>(m, f)\<in>set models. os_path_exists w (os_path_join output_dir f)"
  then show "(\<exists>e. os_makedirs output_dir w = (Inl e, w)
              \<and> download_and_convert_popular_models env output_dir w = (Inl e, w))
         \<or> ((fs w output_dir = None \<or> fs w output_dir = Some Directory)
            \<and> download_and_convert_popular_models env output_dir w =
              (Inr (), \<lparr>fs = (fs w)(output_dir \<mapsto> Directory),
                        stdout = stdout w @ [AlreadyExistsSkipping ''ms-marco-MiniLM-L6-v2.onnx'',
                                             AlreadyExistsSkipping ''ms-marco-MiniLM-L12-v2.onnx'',
                                             AlreadyExistsSkipping ''ms-marco-TinyBERT-L2-v2.onnx''],
                        calls = calls w\<rparr>))"
    by (rule download_all_exist)
qed

theorem existing_outputs_are_skipped_witness:
  "os_path_exists (snd (download_and_convert_popular_models env_ok ''models'' world0))
      (os_path_join ''models'' ''ms-marco-MiniLM-L6-v2.onnx'')
   \<and> os_path_exists (snd (download_and_convert_popular_models env_ok ''models'' world0))
      (os_path_join ''models'' ''ms-marco-MiniLM-L12-v2.onnx'')
   \<and> os_path_exists (snd (download_and_convert_popular_models env_ok ''models'' world0))
      (os_path_join ''models'' ''ms-marco-TinyBERT-L2-v2.onnx'')
   \<and> fs (snd (download_and_convert_popular_models env_ok ''models''
              (snd (download_and_convert_popular_models env_ok ''models'' world0))))
      = fs (snd (download_and_convert_popular_models env_ok ''models'' world0))
   \<and> calls (snd (download_and_convert_popular_models env_ok ''models''
              (snd (download_and_convert_popular_models env_ok ''models'' world0))))
      = calls (snd (download_and_convert_popular_models env_ok ''models'' world0))
   \<and> fst (download_and_convert_popular_models env_ok ''models''
              (snd (download_and_convert_popular_models env_ok ''models'' world0))) = Inr ()"
proof -
  let ?w1 = "snd (download_and_convert_popular_models env_ok ''models'' world0)"
  have e1: "os_path_exists ?w1 (os_path_join ''models'' ''ms-marco-MiniLM-L6-v2.onnx'')"
    by (simp add: eval_defs)
  have e2: "os_path_exists ?w1 (os_path_join ''models'' ''ms-marco-MiniLM-L12-v2.onnx'')"
    by (simp add: eval_defs)
  have e3: "os_path_exists ?w1 (os_path_join ''models'' ''ms-marco-TinyBERT-L2-v2.onnx'')"
    by (simp add: eval_defs)
  have d: "fs ?w1 ''models'' = Some Directory"
    by (simp add: eval_defs)
  have n: "fst (os_makedirs ''models'' ?w1) = Inr ()"
    by (simp add: os_makedirs_def d)
  have h: "\<forall>(m, f)\<in>set models. os_path_exists ?w1 (os_path_join ''models'' f)"
    using e1 e2 e3 by (simp add: models_def)
  have "(fs ?w1)(''models'' \<mapsto> Directory) = fs ?w1"
    using d by (simp add: fun_upd_idem)
  moreover have "\<not> (\<exists>e. os_makedirs ''models'' ?w1 = (Inl e, ?w1)
        \<and> download_and_convert_popular_models env_ok ''models'' ?w1 = (Inl e, ?w1))"
    using n by auto
  ultimately show ?thesis
    using e1 e2 e3 existing_outputs_are_skipped [where w = ?w1 and output_dir = "''models''" and env = env_ok,
        THEN conjunct2, THEN mp, OF h]
    by auto
qed

subsection \<open>Missing optional inference engine\<close>

text \<open>
  C5. When the inference engine cannot be imported and loading, tokenizing and exporting
  succeed, the conversion procedure returns normally: it has written the graph at the
  output path, printed the two warning lines after its reports, and made no call into the
  inference engine. The verification step alone, from any world, returns normally with
  the two warning lines.
\<close>

theorem missing_onnxruntime_is_no_error:
  assumes "\<not> onnxruntime_importable env"
    and "tokenizer_from_pretrained env model_name = Inr tok"
    and "model_from_pretrained env model_name = Inr mdl"
    and "tokenizer_call env tok dummy_query dummy_doc max_length = Inr inputs"
    and "getitem inputs ''input_ids'' = Inr ids"
    and "getitem inputs ''attention_mask'' = Inr attention"
    and "getitem inputs ''token_type_ids'' = Inr types"
    and "onnx_export env (the_export_call mdl ids attention types output_path opset_version) = None"
  shows "convert_cross_encoder_to_onnx env model_name output_path max_length opset_version w =
         (Inr (),
          \<lparr>fs = (fs w)(output_path \<mapsto> OnnxFile (exported_graph
                   (the_export_call mdl ids attention types output_path opset_version))),
            stdout = stdout w @ [LoadingModel model_name, ConvertingToOnnx,
                   ModelSavedTo output_path, ModelDimensions max_length,
                   OutputShapeLabels (num_labels mdl),
                   OnnxruntimeNotInstalled, InstallOnnxruntimeHint],
            calls = calls w @ [TokenizerFromPretrained model_name,
                   ModelFromPretrained model_name,
                   TokenizerCall tok dummy_query dummy_doc max_length,
                   OnnxExport (the_export_call mdl ids attention types output_path
                     opset_version)]\<rparr>)
      \<and> verification env p feeds w' =
         (Inr (), w'\<lparr>stdout := stdout w' @ [OnnxruntimeNotInstalled, InstallOnnxruntimeHint]\<rparr>)"
  using assms(1)
  by (simp add: convert_reaches_verification [OF assms(2-8)] verification_library_absent)

theorem missing_onnxruntime_is_no_error_witness:
  "\<not> onnxruntime_importable env_no_onnxruntime
   \<and> convert_cross_encoder_to_onnx env_no_onnxruntime ''cross-encoder/ms-marco-MiniLM-L6-v2''
       ''models/cross-encoder.onnx'' 512 14 world0 =
       (Inr (),
        \<lparr>fs = [''models/cross-encoder.onnx'' \<mapsto> OnnxFile (exported_graph
               (the_export_call \<lparr>name_or_path = ''cross-encoder/ms-marco-MiniLM-L6-v2'', num_labels = 1\<rparr>
                  [[101, 2054, 102]] [[1, 1, 1]] [[0, 0, 1]] ''models/cross-encoder.onnx'' 14))],
         stdout = [LoadingModel ''cross-encoder/ms-marco-MiniLM-L6-v2'', ConvertingToOnnx,
               ModelSavedTo ''models/cross-encoder.onnx'', ModelDimensions 512,
               OutputShapeLabels 1, OnnxruntimeNotInstalled, InstallOnnxruntimeHint],
         calls = [TokenizerFromPretrained ''cross-encoder/ms-marco-MiniLM-L6-v2'',
               ModelFromPretrained ''cross-encoder/ms-marco-MiniLM-L6-v2'',
               TokenizerCall ''cross-encoder/ms-marco-MiniLM-L6-v2'' dummy_query dummy_doc 512,
               OnnxExport (the_export_call \<lparr>name_or_path = ''cross-encoder/ms-marco-MiniLM-L6-v2'', num_labels = 1\<rparr>
                  [[101, 2054, 102]] [[1, 1, 1]] [[0, 0, 1]] ''models/cross-encoder.onnx'' 14)]\<rparr>)"
proof -
  have h1: "\<not> onnxruntime_importable env_no_onnxruntime"
    by (simp add: env_no_onnxruntime_def env_ok_def)
  have h2: "tokenizer_from_pretrained env_no_onnxruntime ''cross-encoder/ms-marco-MiniLM-L6-v2''
              = Inr ''cross-encoder/ms-marco-MiniLM-L6-v2''"
    by (simp add: env_no_onnxruntime_def env_ok_def)
  have h3: "model_from_pretrained env_no_onnxruntime ''cross-encoder/ms-marco-MiniLM-L6-v2''
              = Inr \<lparr>name_or_path = ''cross-encoder/ms-marco-MiniLM-L6-v2'', num_labels = 1\<rparr>"
    by (simp add: env_no_onnxruntime_def env_ok_def)
  have h4: "tokenizer_call env_no_onnxruntime ''cross-encoder/ms-marco-MiniLM-L6-v2''
              dummy_query dummy_doc 512 = Inr sample_inputs"
    by (simp add: env_no_onnxruntime_def env_ok_def)
  have h5: "getitem sample_inputs ''input_ids'' = Inr [[101, 2054, 102]]"
    by (simp add: getitem_def sample_inputs_def)
  have h6: "getitem sample_inputs ''attention_mask'' = Inr [[1, 1, 1]]"
    by (simp add: getitem_def sample_inputs_def)
  have h7: "getitem sample_inputs ''token_type_ids'' = Inr [[0, 0, 1]]"
    by (simp add: getitem_def sample_inputs_def)
  have h8: "onnx_export env_no_onnxruntime
              (the_export_call \<lparr>name_or_path = ''cross-encoder/ms-marco-MiniLM-L6-v2'', num_labels = 1\<rparr>
                 [[101, 2054, 102]] [[1, 1, 1]] [[0, 0, 1]] ''models/cross-encoder.onnx'' 14) = None"
    by (simp add: env_no_onnxruntime_def env_ok_def)
  show ?thesis
    using h1 missing_onnxruntime_is_no_error [OF h1 h2 h3 h4 h5 h6 h7 h8, of world0]
    by (simp add: world0_def)
qed

subsection \<open>The conversion overwrites without looking\<close>

text \<open>
  C6. The conversion procedure does not look at the file system: started from the same
  world with any other file system \<open>f\<close> it returns the same result, prints the same
  lines and makes the same calls. It either leaves the file system as it was, and then it
  has not returned normally, or it has set exactly the output path to the exported graph,
  whatever was there before.
\<close>

theorem conversion_overwrites_unchecked:
  "fst (convert_cross_encoder_to_onnx env model_name output_path max_length opset_version
          (w\<lparr>fs := f\<rparr>))
     = fst (convert_cross_encoder_to_onnx env model_name output_path max_length opset_version w)
   \<and> stdout (snd (convert_cross_encoder_to_onnx env model_name output_path max_length
                   opset_version (w\<lparr>fs := f\<rparr>)))
     = stdout (snd (convert_cross_encoder_to_onnx env model_name output_path max_length
                   opset_version w))
   \<and> calls (snd (convert_cross_encoder_to_onnx env model_name output_path max_length
                   opset_version (w\<lparr>fs := f\<rparr>)))
     = calls (snd (convert_cross_encoder_to_onnx env model_name output_path max_length
                   opset_version w))
   \<and> (\<exists>g. (fs (snd (convert_cross_encoder_to_onnx env model_name output_path max_length
                     opset_version w)) = fs w
            \<and> fs (snd (convert_cross_encoder_to_onnx env model_name output_path max_length
                     opset_version (w\<lparr>fs := f\<rparr>))) = f
            \<and> fst (convert_cross_encoder_to_onnx env model_name output_path max_length
                     opset_version w) \<noteq> Inr ())
         \<or> (fs (snd (convert_cross_encoder_to_onnx env model_name output_path max_length
                     opset_version w)) = (fs w)(output_path \<mapsto> OnnxFile g)
            \<and> fs (snd (convert_cross_encoder_to_onnx env model_name output_path max_length
                     opset_version (w\<lparr>fs := f\<rparr>))) = f(output_path \<mapsto> OnnxFile g)))"
  using convert_cases [of max_length opset_version env model_name output_path]
proof (elim disjE exE conjE)
  fix e ls cs
  assume "\<forall>w. convert_cross_encoder_to_onnx env model_name output_path max_length
            opset_version w =
        (Inl e, \<lparr>fs = fs w, stdout = stdout w @ ls, calls = calls w @ cs\<rparr>)"
  then show ?thesis by auto
next
  fix g feeds ls cs
  assume c: "\<forall>w. convert_cross_encoder_to_onnx env model_name output_path
            max_length opset_version w =
        verification env output_path feeds
          \<lparr>fs = (fs w)(output_path \<mapsto> OnnxFile g), stdout = stdout w @ ls,
           calls = calls w @ cs\<rparr>"
  have fr: "fst (verification env output_path feeds
               \<lparr>fs = f(output_path \<mapsto> OnnxFile g), stdout = stdout w @ ls, calls = calls w @ cs\<rparr>)
          = fst (verification env output_path feeds
               \<lparr>fs = (fs w)(output_path \<mapsto> OnnxFile g), stdout = stdout w @ ls, calls = calls w @ cs\<rparr>)
       \<and> stdout (snd (verification env output_path feeds
               \<lparr>fs = f(output_path \<mapsto> OnnxFile g), stdout = stdout w @ ls, calls = calls w @ cs\<rparr>))
          = stdout (snd (verification env output_path feeds
               \<lparr>fs = (fs w)(output_path \<mapsto> OnnxFile g), stdout = stdout w @ ls, calls = calls w @ cs\<rparr>))
       \<and> calls (snd (verification env output_path feeds
               \<lparr>fs = f(output_path \<mapsto> OnnxFile g), stdout = stdout w @ ls, calls = calls w @ cs\<rparr>))
          = calls (snd (verification env output_path feeds
               \<lparr>fs = (fs w)(output_path \<mapsto> OnnxFile g), stdout = stdout w @ ls, calls = calls w @ cs\<rparr>))"
    by (rule verification_frame) simp_all
  show ?thesis
    using fr by (simp add: c verification_fs) blast
qed

theorem conversion_overwrites_unchecked_witness:
  "fs (snd (convert_cross_encoder_to_onnx env_ok ''cross-encoder/ms-marco-MiniLM-L6-v2''
              ''models/cross-encoder.onnx'' 512 14 world0)) ''models/cross-encoder.onnx''
     = fs (snd (convert_cross_encoder_to_onnx env_ok ''cross-encoder/ms-marco-MiniLM-L6-v2''
              ''models/cross-encoder.onnx'' 512 14
              (world0\<lparr>fs := [''models/cross-encoder.onnx'' \<mapsto> OtherFile ''old content'']\<rparr>)))
          ''models/cross-encoder.onnx''
   \<and> fst (convert_cross_encoder_to_onnx env_ok ''cross-encoder/ms-marco-MiniLM-L6-v2''
              ''models/cross-encoder.onnx'' 512 14
              (world0\<lparr>fs := [''models/cross-encoder.onnx'' \<mapsto> OtherFile ''old content'']\<rparr>))
     = Inr ()"
proof -
  have h: "fst (convert_cross_encoder_to_onnx env_ok ''cross-encoder/ms-marco-MiniLM-L6-v2''
              ''models/cross-encoder.onnx'' 512 14 world0) = Inr ()"
    by (simp add: eval_defs)
  show ?thesis
    using h conversion_overwrites_unchecked [where env = env_ok and model_name = "''cross-encoder/ms-marco-MiniLM-L6-v2''"
        and output_path = "''models/cross-encoder.onnx''" and max_length = 512
        and opset_version = 14 and w = world0
        and f = "[''models/cross-encoder.onnx'' \<mapsto> OtherFile ''old content'']"]
    by auto
qed

subsection \<open>Failures of loading and export\<close>

text \<open>
  C7. An exception raised by the tokenizer loader, by the model loader or by the exporter
  is the result of the conversion procedure, unchanged; the failing routine has been
  called once and nothing has been written. Conversely the procedure returns normally
  only where loading, tokenizing, the three subscripts and the export all succeeded.
\<close>

theorem loading_and_export_failures_propagate:
  "(tokenizer_from_pretrained env model_name = Inl e \<longrightarrow>
      convert_cross_encoder_to_onnx env model_name output_path max_length opset_version w =
        (Inl e, \<lparr>fs = fs w,
                 stdout = stdout w @ [LoadingModel model_name],
                 calls = calls w @ [TokenizerFromPretrained model_name]\<rparr>))
   \<and> (tokenizer_from_pretrained env model_name = Inr tok
        \<and> model_from_pretrained env model_name = Inl e \<longrightarrow>
      convert_cross_encoder_to_onnx env model_name output_path max_length opset_version w =
        (Inl e, \<lparr>fs = fs w,
                 stdout = stdout w @ [LoadingModel model_name],
                 calls = calls w @ [TokenizerFromPretrained model_name,
                                    ModelFromPretrained model_name]\<rparr>))
   \<and> (tokenizer_from_pretrained env model_name = Inr tok
        \<and> model_from_pretrained env model_name = Inr mdl
        \<and> tokenizer_call env tok dummy_query dummy_doc max_length = Inr inputs
        \<and> getitem inputs ''input_ids'' = Inr ids
        \<and> getitem inputs ''attention_mask'' = Inr attention
        \<and> getitem inputs ''token_type_ids'' = Inr types
        \<and> onnx_export env (the_export_call mdl ids attention types output_path opset_version)
            = Some e \<longrightarrow>
      convert_cross_encoder_to_onnx env model_name output_path max_length opset_version w =
        (Inl e, \<lparr>fs = fs w,
                 stdout = stdout w @ [LoadingModel model_name, ConvertingToOnnx],
                 calls = calls w @ [TokenizerFromPretrained model_name,
                                    ModelFromPretrained model_name,
                                    TokenizerCall tok dummy_query dummy_doc max_length,
                                    OnnxExport (the_export_call mdl ids attention types
                                      output_path opset_version)]\<rparr>))
   \<and> (fst (convert_cross_encoder_to_onnx env model_name output_path max_length opset_version w)
         = Inr u \<longrightarrow>
       (\<exists>tok' mdl' inputs' ids' attention' types'.
          tokenizer_from_pretrained env model_name = Inr tok'
          \<and> model_from_pretrained env model_name = Inr mdl'
          \<and> tokenizer_call env tok' dummy_query dummy_doc max_length = Inr inputs'
          \<and> getitem inputs' ''input_ids'' = Inr ids'
          \<and> getitem inputs' ''attention_mask'' = Inr attention'
          \<and> getitem inputs' ''token_type_ids'' = Inr types'
          \<and> onnx_export env (the_export_call mdl' ids' attention' types' output_path
               opset_version) = None))"
proof (intro conjI impI)
  assume "tokenizer_from_pretrained env model_name = Inl e"
  then show "convert_cross_encoder_to_onnx env model_name output_path max_length opset_version w =
        (Inl e, \<lparr>fs = fs w,
                 stdout = stdout w @ [LoadingModel model_name],
                 calls = calls w @ [TokenizerFromPretrained model_name]\<rparr>)"
    by (cases w) (simp add: convert_cross_encoder_to_onnx_def print_line_def record_call_def)
next
  assume "tokenizer_from_pretrained env model_name = Inr tok
        \<and> model_from_pretrained env model_name = Inl e"
  then show "convert_cross_encoder_to_onnx env model_name output_path max_length opset_version w =
        (Inl e, \<lparr>fs = fs w,
                 stdout = stdout w @ [LoadingModel model_name],
                 calls = calls w @ [TokenizerFromPretrained model_name,
                                    ModelFromPretrained model_name]\<rparr>)"
    by (cases w) (simp add: convert_cross_encoder_to_onnx_def print_line_def record_call_def)
next
  assume "tokenizer_from_pretrained env model_name = Inr tok
        \<and> model_from_pretrained env model_name = Inr mdl
        \<and> tokenizer_call env tok dummy_query dummy_doc max_length = Inr inputs
        \<and> getitem inputs ''input_ids'' = Inr ids
        \<and> getitem inputs ''attention_mask'' = Inr attention
        \<and> getitem inputs ''token_type_ids'' = Inr types
        \<and> onnx_export env (the_export_call mdl ids attention types output_path opset_version)
            = Some e"
  then show "convert_cross_encoder_to_onnx env model_name output_path max_length opset_version w =
        (Inl e, \<lparr>fs = fs w,
                 stdout = stdout w @ [LoadingModel model_name, ConvertingToOnnx],
                 calls = calls w @ [TokenizerFromPretrained model_name,
                                    ModelFromPretrained model_name,
                                    TokenizerCall tok dummy_query dummy_doc max_length,
                                    OnnxExport (the_export_call mdl ids attention types
                                      output_path opset_version)]\<rparr>)"
    by (cases w)
       (simp add: convert_cross_encoder_to_onnx_def export_and_verify_def print_line_def
          record_call_def Let_def)
next
  assume "fst (convert_cross_encoder_to_onnx env model_name output_path max_length opset_version w)
         = Inr u"
  then show "\<exists>tok' mdl' inputs' ids' attention' types'.
          tokenizer_from_pretrained env model_name = Inr tok'
          \<and> model_from_pretrained env model_name = Inr mdl'
          \<and> tokenizer_call env tok' dummy_query dummy_doc max_length = Inr inputs'
          \<and> getitem inputs' ''input_ids'' = Inr ids'
          \<and> getitem inputs' ''attention_mask'' = Inr attention'
          \<and> getitem inputs' ''token_type_ids'' = Inr types'
          \<and> onnx_export env (the_export_call mdl' ids' attention' types' output_path
               opset_version) = None"
    by (auto simp: convert_cross_encoder_to_onnx_def export_and_verify_def Let_def
        split: sum.splits option.splits)
qed

theorem loading_and_export_failures_propagate_witness:
  "tokenizer_from_pretrained env_tokenizer_missing ''no/such-model''
     = Inl (Exn OtherError ''is not a valid model identifier'')
   \<and> convert_cross_encoder_to_onnx env_tokenizer_missing ''no/such-model'' ''models/x.onnx''
       512 14 world0
     = (Inl (Exn OtherError ''is not a valid model identifier''),
        \<lparr>fs = fs world0, stdout = stdout world0 @ [LoadingModel ''no/such-model''],
         calls = calls world0 @ [TokenizerFromPretrained ''no/such-model'']\<rparr>)
   \<and> tokenizer_from_pretrained env_model_missing ''no/such-model'' = Inr ''no/such-model''
   \<and> model_from_pretrained env_model_missing ''no/such-model''
     = Inl (Exn OtherError ''is not a valid model identifier'')
   \<and> convert_cross_encoder_to_onnx env_model_missing ''no/such-model'' ''models/x.onnx''
       512 14 world0
     = (Inl (Exn OtherError ''is not a valid model identifier''),
        \<lparr>fs = fs world0, stdout = stdout world0 @ [LoadingModel ''no/such-model''],
         calls = calls world0 @ [TokenizerFromPretrained ''no/such-model'',
                                 ModelFromPretrained ''no/such-model'']\<rparr>)
   \<and> onnx_export env_export_fails
       (the_export_call \<lparr>name_or_path = ''m'', num_labels = 1\<rparr>
          [[101, 2054, 102]] [[1, 1, 1]] [[0, 0, 1]] ''models/x.onnx'' 99)
     = Some (Exn OtherError ''Unsupported ONNX opset version'')
   \<and> convert_cross_encoder_to_onnx env_export_fails ''m'' ''models/x.onnx'' 512 99 world0
     = (Inl (Exn OtherError ''Unsupported ONNX opset version''),
        \<lparr>fs = fs world0, stdout = stdout world0 @ [LoadingModel ''m'', ConvertingToOnnx],
         calls = calls world0 @ [TokenizerFromPretrained ''m'', ModelFromPretrained ''m'',
           TokenizerCall ''m'' dummy_query dummy_doc 512,
           OnnxExport (the_export_call \<lparr>name_or_path = ''m'', num_labels = 1\<rparr>
             [[101, 2054, 102]] [[1, 1, 1]] [[0, 0, 1]] ''models/x.onnx'' 99)]\<rparr>)
   \<and> fst (convert_cross_encoder_to_onnx env_ok ''m'' ''models/x.onnx'' 512 14 world0) = Inr ()
   \<and> (\<exists>tok mdl inputs ids attention types.
          tokenizer_from_pretrained env_ok ''m'' = Inr tok
          \<and> model_from_pretrained env_ok ''m'' = Inr mdl
          \<and> tokenizer_call env_ok tok dummy_query dummy_doc 512 = Inr inputs
          \<and> getitem inputs ''input_ids'' = Inr ids
          \<and> getitem inputs ''attention_mask'' = Inr attention
          \<and> getitem inputs ''token_type_ids'' = Inr types
          \<and> onnx_export env_ok (the_export_call mdl ids attention types ''models/x.onnx'' 14)
              = None)"
proof -
  have a: "tokenizer_from_pretrained env_tokenizer_missing ''no/such-model''
     = Inl (Exn OtherError ''is not a valid model identifier'')"
    by (simp add: env_tokenizer_missing_def env_ok_def)
  have b: "tokenizer_from_pretrained env_model_missing ''no/such-model'' = Inr ''no/such-model''
      \<and> model_from_pretrained env_model_missing ''no/such-model''
         = Inl (Exn OtherError ''is not a valid model identifier'')"
    by (simp add: env_model_missing_def env_ok_def)
  have c: "tokenizer_from_pretrained env_export_fails ''m'' = Inr ''m''
      \<and> model_from_pretrained env_export_fails ''m'' = Inr \<lparr>name_or_path = ''m'', num_labels = 1\<rparr>
      \<and> tokenizer_call env_export_fails ''m'' dummy_query dummy_doc 512 = Inr sample_inputs
      \<and> getitem sample_inputs ''input_ids'' = Inr [[101, 2054, 102]]
      \<and> getitem sample_inputs ''attention_mask'' = Inr [[1, 1, 1]]
      \<and> getitem sample_inputs ''token_type_ids'' = Inr [[0, 0, 1]]
      \<and> onnx_export env_export_fails
           (the_export_call \<lparr>name_or_path = ''m'', num_labels = 1\<rparr>
              [[101, 2054, 102]] [[1, 1, 1]] [[0, 0, 1]] ''models/x.onnx'' 99)
         = Some (Exn OtherError ''Unsupported ONNX opset version'')"
    by (simp add: env_export_fails_def env_ok_def getitem_def sample_inputs_def)
  have d: "fst (convert_cross_encoder_to_onnx env_ok ''m'' ''models/x.onnx'' 512 14 world0) = Inr ()"
    by (simp add: eval_defs)
  note t1 = loading_and_export_failures_propagate [where env = env_tokenizer_missing and model_name = "''no/such-model''"
      and e = "Exn OtherError ''is not a valid model identifier''"
      and output_path = "''models/x.onnx''" and max_length = 512 and opset_version = 14
      and w = world0, THEN conjunct1, THEN mp, OF a]
  note t2 = loading_and_export_failures_propagate [where env = env_model_missing and model_name = "''no/such-model''"
      and tok = "''no/such-model''" and e = "Exn OtherError ''is not a valid model identifier''"
      and output_path = "''models/x.onnx''" and max_length = 512 and opset_version = 14
      and w = world0, THEN conjunct2, THEN conjunct1, THEN mp, OF b]
  note t3 = loading_and_export_failures_propagate [where env = env_export_fails and model_name = "''m''" and tok = "''m''"
      and mdl = "\<lparr>name_or_path = ''m'', num_labels = 1\<rparr>" and inputs = sample_inputs
      and ids = "[[101, 2054, 102]]" and attention = "[[1, 1, 1]]" and types = "[[0, 0, 1]]"
      and e = "Exn OtherError ''Unsupported ONNX opset version''"
      and output_path = "''models/x.onnx''" and max_length = 512 and opset_version = 99
      and w = world0, THEN conjunct2, THEN conjunct2, THEN conjunct1, THEN mp, OF c]
  note t4 = loading_and_export_failures_propagate [where env = env_ok and model_name = "''m''" and u = "()"
      and output_path = "''models/x.onnx''" and max_length = 512 and opset_version = 14
      and w = world0, THEN conjunct2, THEN conjunct2, THEN conjunct2, THEN mp, OF d]
  show ?thesis
    using a b c d t1 t2 t3 t4 by simp
qed

subsection \<open>Failures of the verification itself\<close>




subsection \<open>The output directory in single-model mode\<close>




subsection \<open>Batch mode ignores the single-model arguments\<close>

text \<open>
  C10. With the batch flag set, the script run with any other values of
  \<^verbatim>\<open>--model\<close>, \<^verbatim>\<open>--output\<close> and \<^verbatim>\<open>--max-length\<close> ends the same way in
  the same world, so with the same calls in the same order; and every tokenizer call of
  the run has the maximum length 512, every export call the opset version 14.
\<close>

theorem batch_ignores_single_mode_arguments:
  "args_download_popular a \<longrightarrow>
     script env (a\<lparr>args_model := m, args_output := out, args_max_length := l\<rparr>) w
       = script env a w
     \<and> (\<exists>cs. calls (snd (script env a w)) = calls w @ cs
          \<and> (\<forall>c\<in>set cs. (\<forall>tok q t k. c = TokenizerCall tok q t k \<longrightarrow> k = 512)
                         \<and> (\<forall>x. c = OnnxExport x \<longrightarrow> exp_opset_version x = 14)))"
proof (intro impI conjI)
  assume f: "args_download_popular a"
  then show "script env (a\<lparr>args_model := m, args_output := out, args_max_length := l\<rparr>) w
       = script env a w"
    by (simp add: script_def main_def)
  show "\<exists>cs. calls (snd (script env a w)) = calls w @ cs
          \<and> (\<forall>c\<in>set cs. (\<forall>tok q t k. c = TokenizerCall tok q t k \<longrightarrow> k = 512)
                         \<and> (\<forall>x. c = OnnxExport x \<longrightarrow> exp_opset_version x = 14))"
  proof (cases "torch_importable env \<and> transformers_importable env")
    case False
    then have "calls (snd (script env a w)) = calls w @ []"
      by (auto simp: script_def)
    then show ?thesis by (intro exI [of _ "[]"]) simp
  next
    case True
    from os_makedirs_cases [of "args_output_dir a" w] show ?thesis
    proof (elim disjE conjE)
      assume "os_makedirs (args_output_dir a) w =
        (Inr (), \<lparr>fs = (fs w)(args_output_dir a \<mapsto> Directory), stdout = stdout w,
                  calls = calls w\<rparr>)"
      then have s: "snd (script env a w) = snd (batch_loop env (args_output_dir a) models
          \<lparr>fs = (fs w)(args_output_dir a \<mapsto> Directory), stdout = stdout w, calls = calls w\<rparr>)"
        using True f
        by (simp add: script_batch download_and_convert_popular_models_def split: prod.splits sum.splits)
      show ?thesis
        using batch_loop_calls [of env "args_output_dir a" models
          "\<lparr>fs = (fs w)(args_output_dir a \<mapsto> Directory), stdout = stdout w, calls = calls w\<rparr>"]
        by (simp add: s default_max_length_def default_opset_version_def)
    next
      assume "os_makedirs (args_output_dir a) w =
        (Inl (Exn FileNotFoundError ''[Errno 2] No such file or directory''), w)"
      then have "calls (snd (script env a w)) = calls w @ []"
        using True f by (simp add: script_batch download_and_convert_popular_models_def)
      then show ?thesis by (intro exI [of _ "[]"]) simp
    next
      assume "os_makedirs (args_output_dir a) w =
        (Inl (Exn FileExistsError ''[Errno 17] File exists''), w)"
      then have "calls (snd (script env a w)) = calls w @ []"
        using True f by (simp add: script_batch download_and_convert_popular_models_def)
      then show ?thesis by (intro exI [of _ "[]"]) simp
    qed
  qed
qed

theorem batch_ignores_single_mode_arguments_witness:
  "args_download_popular batch_args
   \<and> script env_ok (batch_args\<lparr>args_model := ''some/other-model'',
                                args_output := ''elsewhere/other.onnx'',
                                args_max_length := 128\<rparr>) world0
     = script env_ok batch_args world0
   \<and> (\<exists>cs. calls (snd (script env_ok batch_args world0)) = calls world0 @ cs
          \<and> list_all (\<lambda>c. (\<forall>tok q t k. c \<noteq> TokenizerCall tok q t k \<or> k = 512)
                         \<and> (\<forall>x. c \<noteq> OnnxExport x \<or> exp_opset_version x = 14)) cs)
   \<and> TokenizerCall ''cross-encoder/ms-marco-MiniLM-L6-v2'' dummy_query dummy_doc 512
        \<in> set (calls (snd (script env_ok
               (batch_args\<lparr>args_model := ''some/other-model'',
                            args_output := ''elsewhere/other.onnx'',
                            args_max_length := 128\<rparr>) world0)))"
proof -
  have h: "args_download_popular batch_args"
    by (simp add: batch_args_def default_args_def)
  have c: "TokenizerCall ''cross-encoder/ms-marco-MiniLM-L6-v2'' dummy_query dummy_doc 512
        \<in> set (calls (snd (script env_ok batch_args world0)))"
    by (simp add: eval_defs)
  show ?thesis
    using h c batch_ignores_single_mode_arguments [where a = batch_args and env = env_ok and m = "''some/other-model''"
        and out = "''elsewhere/other.onnx''" and l = 128 and w = world0]
    by (auto simp: list_all_iff)
qed

end
